theory Spec2Isabelle
  imports Complex_Main
begin

section \<open>JavaScript values as the server sees them\<close>

text \<open>
  Request bodies and store files reach the server through \<^verbatim>\<open>JSON.parse\<close>, so every value
  the handlers touch is a JSON value. A number is the rational it denotes (every double is
  one); a string is the list of its code units, taken below 256; an object is the list of
  its own properties, with distinct names, in the order \<^verbatim>\<open>JSON.stringify\<close> writes them. A
  property that is not there reads as \<^verbatim>\<open>undefined\<close>, modelled by \<open>None\<close> of
  \<open>json option\<close>. Number literals beyond the range of a double are outside this model.
\<close>

datatype json = JNull | JBool bool | JNum rat | JStr string
  | JArr "json list" | JObj "(string \<times> json) list"

text \<open>The result of \<^verbatim>\<open>Number(v)\<close>: a finite number, an infinity or NaN.\<close>

datatype jsnum = NaN | PosInf | NegInf | Fin rat

datatype error = TypeError | SyntaxError | IoError string | ProviderError string

text \<open>
  \<^verbatim>\<open>!v\<close> is true for \<^verbatim>\<open>undefined\<close>, \<^verbatim>\<open>null\<close>, \<^verbatim>\<open>false\<close>, \<^verbatim>\<open>0\<close> and \<^verbatim>\<open>""\<close>; every array and
  object is truthy.
\<close>

fun truthy :: "json option \<Rightarrow> bool" where
  "truthy None = False"
| "truthy (Some JNull) = False"
| "truthy (Some (JBool b)) = b"
| "truthy (Some (JNum r)) = (r \<noteq> 0)"
| "truthy (Some (JStr s)) = (s \<noteq> [])"
| "truthy (Some (JArr xs)) = True"
| "truthy (Some (JObj kvs)) = True"

text \<open>
  \<^verbatim>\<open>v.key\<close> and the destructuring \<^verbatim>\<open>const { key } = v\<close>, for the property names the
  handlers read (none of them is a built-in property of arrays or strings): an own property
  of an object, \<^verbatim>\<open>undefined\<close> on every other value. Reading a property of \<^verbatim>\<open>null\<close> throws;
  the callers below test for \<open>JNull\<close> before they use \<open>js_get\<close> where it can occur.
\<close>

fun js_get :: "string \<Rightarrow> json \<Rightarrow> json option" where
  "js_get k (JObj kvs) = map_of kvs k"
| "js_get k v = None"

text \<open>\<^verbatim>\<open>a || b\<close> on a possibly undefined property with a default.\<close>

fun or_default :: "json option \<Rightarrow> json \<Rightarrow> json" where
  "or_default None d = d"
| "or_default (Some v) d = (if truthy (Some v) then v else d)"

text \<open>
  An object literal whose property values may be \<^verbatim>\<open>undefined\<close>. Both \<^verbatim>\<open>res.json\<close> and
  \<^verbatim>\<open>writeJson\<close> pass it through \<^verbatim>\<open>JSON.stringify\<close>, which leaves such properties out.
\<close>

fun mk_obj :: "(string \<times> json option) list \<Rightarrow> (string \<times> json) list" where
  "mk_obj [] = []"
| "mk_obj ((k, None) # kvs) = mk_obj kvs"
| "mk_obj ((k, Some v) # kvs) = (k, v) # mk_obj kvs"

subsection \<open>Conversion to strings (template literals)\<close>

fun showNat :: "nat \<Rightarrow> string" where
  "showNat n = (if n < 10 then [''0123456789'' ! n]
                else showNat (n div 10) @ [''0123456789'' ! (n mod 10)])"

declare showNat.simps [simp del]

text \<open>\<^verbatim>\<open>Array.prototype.join\<close> on strings.\<close>

fun join :: "string \<Rightarrow> string list \<Rightarrow> string" where
  "join sep [] = []"
| "join sep [x] = x"
| "join sep (x # y # ys) = x @ sep @ join sep (y # ys)"

text \<open>
  \<^verbatim>\<open>Number::toString\<close>: an integer up to \<open>2^53 - 1\<close> in absolute value prints as its
  decimal digits. The shortest-digits printing of every other double is floating-point work
  and is the parameter \<open>fmt\<close>.
\<close>

definition numberToString :: "(rat \<Rightarrow> string) \<Rightarrow> rat \<Rightarrow> string" where
  "numberToString fmt r =
     (if of_int \<lfloor>r\<rfloor> = r \<and> \<bar>r\<bar> \<le> 9007199254740991
      then (if r < 0 then ''-'' @ showNat (nat (- \<lfloor>r\<rfloor>)) else showNat (nat \<lfloor>r\<rfloor>))
      else fmt r)"

text \<open>The results of a list of conversions done left to right: the first error wins.\<close>

fun sequence :: "(error + 'a) list \<Rightarrow> error + 'a list" where
  "sequence [] = Inr []"
| "sequence (Inl e # rs) = Inl e"
| "sequence (Inr x # rs) = (case sequence rs of Inl e \<Rightarrow> Inl e | Inr xs \<Rightarrow> Inr (x # xs))"

text \<open>
  \<^verbatim>\<open>String(v)\<close>, as a template literal \<^verbatim>\<open>`${v}`\<close> applies it. An array joins its elements
  with a comma, \<^verbatim>\<open>null\<close> elements printing as the empty string. An object prints through
  the inherited \<^verbatim>\<open>toString\<close>; an own property of that name, which in a parsed value is never
  a function, hides it, and the conversion throws.
\<close>

fun toString :: "(rat \<Rightarrow> string) \<Rightarrow> json \<Rightarrow> error + string" where
  "toString fmt JNull = Inr ''null''"
| "toString fmt (JBool b) = Inr (if b then ''true'' else ''false'')"
| "toString fmt (JNum r) = Inr (numberToString fmt r)"
| "toString fmt (JStr s) = Inr s"
| "toString fmt (JArr xs) =
     (case sequence (map (\<lambda>x. if x = JNull then Inr [] else toString fmt x) xs) of
        Inl e \<Rightarrow> Inl e
      | Inr ss \<Rightarrow> Inr (join '','' ss))"
| "toString fmt (JObj kvs) =
     (if map_of kvs ''toString'' \<noteq> None then Inl TypeError else Inr ''[object Object]'')"

fun tpl :: "(rat \<Rightarrow> string) \<Rightarrow> json option \<Rightarrow> error + string" where
  "tpl fmt None = Inr ''undefined''"
| "tpl fmt (Some v) = toString fmt v"

subsection \<open>Conversion to numbers\<close>

text \<open>
  \<^verbatim>\<open>Number(s)\<close> on a string follows the grammar \<^verbatim>\<open>StringNumericLiteral\<close>: white space
  around the literal is dropped, the empty string is \<open>0\<close>, a literal is \<^verbatim>\<open>0b\<close>, \<^verbatim>\<open>0o\<close> or
  \<^verbatim>\<open>0x\<close> with digits of that base, or an optionally signed \<^verbatim>\<open>Infinity\<close> or decimal literal
  with optional fraction and exponent; anything else is NaN. The rounding of the literal's
  value to a double is the parameter \<open>rnd\<close>.
\<close>

definition isWhite :: "char \<Rightarrow> bool" where
  "isWhite c = (of_char c \<in> {9, 10, 11, 12, 13, 32, 160 :: nat})"

definition trim :: "string \<Rightarrow> string" where
  "trim s = rev (dropWhile isWhite (rev (dropWhile isWhite s)))"

definition isDigit :: "char \<Rightarrow> bool" where
  "isDigit c = (c \<in> set ''0123456789'')"

definition digitVal :: "char \<Rightarrow> nat" where
  "digitVal c =
     (if isDigit c then of_char c - 48
      else if c \<in> set ''abcdef'' then of_char c - 87
      else of_char c - 55)"

definition digitsVal :: "nat \<Rightarrow> string \<Rightarrow> nat" where
  "digitsVal base ds = foldl (\<lambda>a c. base * a + digitVal c) 0 ds"

definition nonDecimal :: "string \<Rightarrow> nat option" where
  "nonDecimal t =
     (case t of
        c0 # c1 # ds \<Rightarrow>
          if c0 = CHR ''0'' \<and> ds \<noteq> [] then
            (if c1 \<in> set ''bB'' \<and> list_all (\<lambda>c. c \<in> set ''01'') ds
               then Some (digitsVal 2 ds)
             else if c1 \<in> set ''oO'' \<and> list_all (\<lambda>c. c \<in> set ''01234567'') ds
               then Some (digitsVal 8 ds)
             else if c1 \<in> set ''xX''
                  \<and> list_all (\<lambda>c. c \<in> set ''0123456789abcdefABCDEF'') ds
               then Some (digitsVal 16 ds)
             else None)
          else None
      | _ \<Rightarrow> None)"

definition decDigits :: "string \<Rightarrow> int option" where
  "decDigits ds = (if ds \<noteq> [] \<and> list_all isDigit ds then Some (int (digitsVal 10 ds)) else None)"

definition exponentPart :: "string \<Rightarrow> int option" where
  "exponentPart r =
     (case r of
        [] \<Rightarrow> Some 0
      | c # ds \<Rightarrow>
          if c \<in> set ''eE'' then
            (case ds of
               CHR ''+'' # ds' \<Rightarrow> decDigits ds'
             | CHR ''-'' # ds' \<Rightarrow> map_option uminus (decDigits ds')
             | _ \<Rightarrow> decDigits ds)
          else None)"

definition unsignedDecimal :: "(rat \<Rightarrow> jsnum) \<Rightarrow> string \<Rightarrow> jsnum" where
  "unsignedDecimal rnd u =
     (if u = ''Infinity'' then PosInf
      else
        let ip = takeWhile isDigit u;
            r1 = dropWhile isDigit u;
            fp = (case r1 of CHR ''.'' # r \<Rightarrow> takeWhile isDigit r | _ \<Rightarrow> []);
            r2 = (case r1 of CHR ''.'' # r \<Rightarrow> dropWhile isDigit r | _ \<Rightarrow> r1);
            m = of_nat (digitsVal 10 ip) + of_nat (digitsVal 10 fp) / 10 ^ length fp
        in if ip = [] \<and> fp = [] then NaN
           else (case exponentPart r2 of
                   None \<Rightarrow> NaN
                 | Some e \<Rightarrow> rnd (if 0 \<le> e then m * 10 ^ nat e else m / 10 ^ nat (- e))))"

fun negate :: "jsnum \<Rightarrow> jsnum" where
  "negate NaN = NaN"
| "negate PosInf = NegInf"
| "negate NegInf = PosInf"
| "negate (Fin r) = Fin (- r)"

definition StringToNumber :: "(rat \<Rightarrow> jsnum) \<Rightarrow> string \<Rightarrow> jsnum" where
  "StringToNumber rnd s =
     (let t = trim s in
      if t = [] then Fin 0
      else (case nonDecimal t of
              Some n \<Rightarrow> rnd (of_nat n)
            | None \<Rightarrow>
                (case t of
                   CHR ''+'' # u \<Rightarrow> unsignedDecimal rnd u
                 | CHR ''-'' # u \<Rightarrow> negate (unsignedDecimal rnd u)
                 | _ \<Rightarrow> unsignedDecimal rnd t)))"

text \<open>
  \<^verbatim>\<open>Number(v)\<close>: \<^verbatim>\<open>undefined\<close> is NaN, \<^verbatim>\<open>null\<close> and \<^verbatim>\<open>false\<close> are \<open>0\<close>, \<^verbatim>\<open>true\<close> is \<open>1\<close>, a
  number is itself, and an array or object is first turned into its string, which can
  throw.
\<close>

definition viaString :: "(rat \<Rightarrow> string) \<Rightarrow> (rat \<Rightarrow> jsnum) \<Rightarrow> json \<Rightarrow> error + jsnum" where
  "viaString fmt rnd v =
     (case toString fmt v of Inl e \<Rightarrow> Inl e | Inr s \<Rightarrow> Inr (StringToNumber rnd s))"

fun Number :: "(rat \<Rightarrow> string) \<Rightarrow> (rat \<Rightarrow> jsnum) \<Rightarrow> json option \<Rightarrow> error + jsnum" where
  "Number fmt rnd None = Inr NaN"
| "Number fmt rnd (Some JNull) = Inr (Fin 0)"
| "Number fmt rnd (Some (JBool b)) = Inr (Fin (if b then 1 else 0))"
| "Number fmt rnd (Some (JNum r)) = Inr (Fin r)"
| "Number fmt rnd (Some (JStr s)) = Inr (StringToNumber rnd s)"
| "Number fmt rnd (Some (JArr xs)) = viaString fmt rnd (JArr xs)"
| "Number fmt rnd (Some (JObj kvs)) = viaString fmt rnd (JObj kvs)"

fun isFinite :: "jsnum \<Rightarrow> bool" where
  "isFinite (Fin r) = True"
| "isFinite x = False"

text \<open>\<^verbatim>\<open>x <= 0\<close> on numbers: false whenever \<open>x\<close> is NaN.\<close>

fun le_zero :: "jsnum \<Rightarrow> bool" where
  "le_zero (Fin r) = (r \<le> 0)"
| "le_zero NegInf = True"
| "le_zero x = False"

section \<open>Configuration and the store engine\<close>

text \<open>\<^verbatim>\<open>process.env\<close>: a variable is a string or is not set.\<close>

type_synonym env = "string \<Rightarrow> string option"

text \<open>\<^verbatim>\<open>process.env.X || d\<close>: the default also replaces the empty string.\<close>

fun env_or :: "string option \<Rightarrow> string \<Rightarrow> string" where
  "env_or None d = d"
| "env_or (Some s) d = (if s = [] then d else s)"

datatype store_key = appointments | spares | feedback | contacts | customerRecords

fun STORE_FILES :: "store_key \<Rightarrow> string" where
  "STORE_FILES appointments = ''appointments.json''"
| "STORE_FILES spares = ''spares.json''"
| "STORE_FILES feedback = ''feedback.json''"
| "STORE_FILES contacts = ''contacts.json''"
| "STORE_FILES customerRecords = ''customer-records.json''"

text \<open>
  What \<^verbatim>\<open>fs.readFile\<close> followed by \<^verbatim>\<open>JSON.parse\<close> gives for a path of the data directory:
  the read fails with an error code (\<^verbatim>\<open>ENOENT\<close> when there is no such file), the text is
  not JSON, or the text parses to a value. The data directory exists (\<^verbatim>\<open>start\<close> creates it
  before the server listens) and \<^verbatim>\<open>fs.writeFile\<close> succeeds; after it the file parses to the
  value written.
\<close>

datatype file_read = ReadError string | BadJson | Parsed json

type_synonym disk = "string \<Rightarrow> file_read"

definition writeJson :: "disk \<Rightarrow> string \<Rightarrow> json \<Rightarrow> disk" where
  "writeJson d filePath data = d(filePath := Parsed data)"

definition readJson :: "disk \<Rightarrow> string \<Rightarrow> json \<Rightarrow> disk \<times> (error + json)" where
  "readJson d filePath fallback =
     (case d filePath of
        Parsed data \<Rightarrow> (d, Inr (if data = JNull then fallback else data))
      | BadJson \<Rightarrow> (d, Inl SyntaxError)
      | ReadError code \<Rightarrow>
          if code = ''ENOENT'' then (writeJson d filePath fallback, Inr fallback)
          else (d, Inl (IoError code)))"

definition loadStore :: "disk \<Rightarrow> store_key \<Rightarrow> disk \<times> (error + json)" where
  "loadStore d key = readJson d (STORE_FILES key) (JArr [])"

definition saveStore :: "disk \<Rightarrow> store_key \<Rightarrow> json \<Rightarrow> disk" where
  "saveStore d key data = writeJson d (STORE_FILES key) data"

text \<open>\<^verbatim>\<open>records.push\<close> is a function only when the loaded value is an array.\<close>

definition addRecord :: "disk \<Rightarrow> store_key \<Rightarrow> json \<Rightarrow> disk \<times> (error + json)" where
  "addRecord d key record =
     (case loadStore d key of
        (d1, Inl e) \<Rightarrow> (d1, Inl e)
      | (d1, Inr (JArr records)) \<Rightarrow> (saveStore d1 key (JArr (records @ [record])), Inr record)
      | (d1, Inr other) \<Rightarrow> (d1, Inl TypeError))"

section \<open>Notification dispatcher\<close>

record sms =
  sms_from :: string
  sms_to :: string
  sms_body :: string

text \<open>
  The SMS provider's library is not part of the repository: \<open>twilio\<close> says whether the
  constructor \<^verbatim>\<open>twilio(sid, token)\<close> throws, \<open>create\<close> whether \<^verbatim>\<open>client.messages.create\<close>
  rejects.
\<close>

record provider =
  twilio :: "string \<Rightarrow> string \<Rightarrow> error option"
  create :: "sms \<Rightarrow> error option"

text \<open>
  How one call of \<^verbatim>\<open>sendSms\<close> ends: it returns after a warning on the console and sends
  nothing, it returns after the provider took the message, or its promise rejects.
\<close>

datatype sms_result = Skipped string | Sent sms | Rejected error

definition getTwilioClient :: "provider \<Rightarrow> env \<Rightarrow> error + (string \<times> string) option" where
  "getTwilioClient P ev =
     (case (ev ''TWILIO_SID'', ev ''TWILIO_AUTH'') of
        (Some sid, Some token) \<Rightarrow>
          if sid = [] \<or> token = [] then Inr None
          else (case twilio P sid token of
                  Some e \<Rightarrow> Inl e
                | None \<Rightarrow> Inr (Some (sid, token)))
      | _ \<Rightarrow> Inr None)"

text \<open>The pattern \<^verbatim>\<open>/^\+\d{10,15}$/\<close>.\<close>

definition validPhone :: "string \<Rightarrow> bool" where
  "validPhone t =
     (case t of
        [] \<Rightarrow> False
      | c # ds \<Rightarrow> c = CHR ''+'' \<and> list_all isDigit ds \<and> 10 \<le> length ds \<and> length ds \<le> 15)"

definition startsWithPlus :: "string \<Rightarrow> bool" where
  "startsWithPlus t = (case t of [] \<Rightarrow> False | c # cs \<Rightarrow> c = CHR ''+'')"

definition normalizeTo :: "env \<Rightarrow> string \<Rightarrow> string" where
  "normalizeTo ev t =
     (if \<not> startsWithPlus t
      then env_or (ev ''DEFAULT_COUNTRY_CODE'') ''+91'' @ filter isDigit t
      else t)"

text \<open>
  \<open>to\<close> is whatever the caller passes: the submitted \<^verbatim>\<open>phone\<close> can be any JSON value, and
  \<^verbatim>\<open>to.startsWith\<close> is a function only on a string.
\<close>

definition sendSms :: "provider \<Rightarrow> env \<Rightarrow> json \<Rightarrow> string \<Rightarrow> sms_result" where
  "sendSms P ev to body =
     (case getTwilioClient P ev of
        Inl e \<Rightarrow> Rejected e
      | Inr client \<Rightarrow>
          if client = None \<or> env_or (ev ''TWILIO_PHONE'') [] = []
          then Skipped ''SMS service not configured. Skipping SMS.''
          else (case to of
                  JStr t \<Rightarrow>
                    let t' = normalizeTo ev t in
                    if \<not> validPhone t'
                    then Skipped (''Invalid phone number '' @ [CHR 0x22] @ t' @ [CHR 0x22]
                                  @ ''. Skipping SMS.'')
                    else
                      let m = \<lparr>sms_from = env_or (ev ''TWILIO_PHONE'') [], sms_to = t',
                               sms_body = body\<rparr>
                      in (case create P m of Some e \<Rightarrow> Rejected e | None \<Rightarrow> Sent m)
                | _ \<Rightarrow> Rejected TypeError))"

text \<open>
  \<^verbatim>\<open>notifyCustomerAndAdmin\<close> starts one send per recipient that is there, the customer's
  first, and waits for all: the result lists how each send ended. With no recipient it only
  warns, which is the empty list.
\<close>

definition notifyCustomerAndAdmin ::
  "provider \<Rightarrow> env \<Rightarrow> json option \<Rightarrow> string option \<Rightarrow> string \<Rightarrow> sms_result list" where
  "notifyCustomerAndAdmin P ev customerPhone adminPhone body =
     (case customerPhone of
        Some p \<Rightarrow> if truthy (Some p) then [sendSms P ev p body] else []
      | None \<Rightarrow> [])
     @ (case adminPhone of
          Some a \<Rightarrow> if a \<noteq> [] then [sendSms P ev (JStr a) (''[ADMIN] '' @ body)] else []
        | None \<Rightarrow> [])"

section \<open>Request handlers\<close>

record response =
  status :: nat
  body :: json

text \<open>
  A handler either sends a response or throws (its promise rejects and no response is
  written by the handler).
\<close>

datatype outcome = Responded response | Threw error

definition respondError :: "nat \<Rightarrow> string \<Rightarrow> outcome" where
  "respondError st message =
     Responded \<lparr>status = st, body = JObj [(''ok'', JBool False), (''message'', JStr message)]\<rparr>"

text \<open>\<^verbatim>\<open>res.json(v)\<close> without a status sends 200.\<close>

definition res_json :: "(string \<times> json option) list \<Rightarrow> outcome" where
  "res_json kvs = Responded \<lparr>status = 200, body = JObj (mk_obj kvs)\<rparr>"

text \<open>
  What a handler reads besides the request and the disk: the environment, the provider, the
  two floating-point parameters, and the values \<^verbatim>\<open>randomUUID()\<close> and
  \<^verbatim>\<open>new Date().toISOString()\<close> return during this request.
\<close>

record runtime =
  rt_env :: env
  rt_provider :: provider
  rt_fmt :: "rat \<Rightarrow> string"
  rt_rnd :: "rat \<Rightarrow> jsnum"
  rt_uuid :: string
  rt_now :: string

text \<open>
  What a handler leaves behind: the disk, how each notification send ended, and the
  response or the error.
\<close>

record effect =
  files :: disk
  notified :: "sms_result list"
  outcome :: outcome

subsection \<open>Login\<close>

definition login :: "env \<Rightarrow> json option \<Rightarrow> outcome" where
  "login ev reqBody =
     (let b = or_default reqBody (JObj []);
          username = js_get ''username'' b;
          password = js_get ''password'' b;
          adminUser = env_or (ev ''ADMIN_USER'') ''admin'';
          adminPass = env_or (ev ''ADMIN_PASS'') ''admin123''
      in if \<not> truthy username \<or> \<not> truthy password
         then respondError 400 ''Missing username or password.''
         else if username \<noteq> Some (JStr adminUser) \<or> password \<noteq> Some (JStr adminPass)
         then respondError 401 ''Invalid credentials.''
         else res_json [(''ok'', Some (JBool True))])"

subsection \<open>Appointments\<close>

text \<open>
  The record, given the texts the template literal of \<^verbatim>\<open>details\<close> got for \<^verbatim>\<open>vehicle\<close> and
  \<^verbatim>\<open>issue\<close>.
\<close>

definition appointment_record ::
  "runtime \<Rightarrow> json \<Rightarrow> string \<Rightarrow> string \<Rightarrow> (string \<times> json option) list" where
  "appointment_record rt b vehicleText issueText =
     [(''id'', Some (JStr (rt_uuid rt))),
      (''type'', Some (JStr ''Appointment'')),
      (''name'', js_get ''name'' b),
      (''phone'', js_get ''phone'' b),
      (''address'', js_get ''address'' b),
      (''details'', Some (JStr (''Vehicle: '' @ vehicleText @ '' | Issue: '' @ issueText))),
      (''createdAt'', Some (JStr (rt_now rt)))]"

text \<open>
  The notification runs inside \<^verbatim>\<open>try\<close>: when building its text throws, nothing is sent
  and the handler goes on.
\<close>

definition post_appointments :: "runtime \<Rightarrow> disk \<Rightarrow> json option \<Rightarrow> effect" where
  "post_appointments rt d reqBody =
     (let b = or_default reqBody (JObj []);
          name = js_get ''name'' b; phone = js_get ''phone'' b;
          address = js_get ''address'' b;
          vehicle = js_get ''vehicle'' b; issue = js_get ''issue'' b
      in if \<not> truthy name \<or> \<not> truthy phone \<or> \<not> truthy address
            \<or> \<not> truthy vehicle \<or> \<not> truthy issue
         then \<lparr>files = d, notified = [],
               outcome = respondError 400 ''All appointment fields are required.''\<rparr>
         else
           (case tpl (rt_fmt rt) vehicle of
              Inl e \<Rightarrow> \<lparr>files = d, notified = [], outcome = Threw e\<rparr>
            | Inr vehicleText \<Rightarrow>
           (case tpl (rt_fmt rt) issue of
              Inl e \<Rightarrow> \<lparr>files = d, notified = [], outcome = Threw e\<rparr>
            | Inr issueText \<Rightarrow>
           let record = appointment_record rt b vehicleText issueText in
           (case addRecord d appointments
                   (JObj (mk_obj (record @ [(''vehicle'', vehicle), (''issue'', issue)]))) of
              (d1, Inl e) \<Rightarrow> \<lparr>files = d1, notified = [], outcome = Threw e\<rparr>
            | (d1, Inr r1) \<Rightarrow>
                (case addRecord d1 customerRecords (JObj (mk_obj record)) of
                   (d2, Inl e) \<Rightarrow> \<lparr>files = d2, notified = [], outcome = Threw e\<rparr>
                 | (d2, Inr r2) \<Rightarrow>
                     \<lparr>files = d2,
                      notified =
                        (case tpl (rt_fmt rt) name of
                           Inl e \<Rightarrow> []
                         | Inr nameText \<Rightarrow>
                             notifyCustomerAndAdmin (rt_provider rt) (rt_env rt) phone
                               (rt_env rt ''ADMIN_PHONE'')
                               (''Hi '' @ nameText
                                @ '', your appointment is confirmed. Vehicle: ''
                                @ vehicleText @ ''. Issue: '' @ issueText @ ''.'')),
                      outcome = res_json [(''ok'', Some (JBool True)),
                                          (''record'', Some (JObj (mk_obj record)))]\<rparr>)))))"

subsection \<open>Spare parts\<close>

text \<open>\<^verbatim>\<open>Array.isArray(v)\<close> together with the elements.\<close>

fun arrayItems :: "json option \<Rightarrow> json list option" where
  "arrayItems (Some (JArr xs)) = Some xs"
| "arrayItems v = None"

text \<open>The callback of \<^verbatim>\<open>parts.map\<close>; reading \<^verbatim>\<open>part.name\<close> throws on \<^verbatim>\<open>null\<close>.\<close>

definition partSummary :: "(rat \<Rightarrow> string) \<Rightarrow> json \<Rightarrow> error + string" where
  "partSummary f part =
     (if part = JNull then Inl TypeError
      else
        (case toString f (or_default (js_get ''name'' part) (JStr ''Part'')) of
           Inl e \<Rightarrow> Inl e
         | Inr nameText \<Rightarrow>
        (case toString f (or_default (js_get ''qty'' part) (JStr ''1'')) of
           Inl e \<Rightarrow> Inl e
         | Inr qtyText \<Rightarrow>
        (case toString f (or_default (js_get ''amount'' part) (JStr ''0'')) of
           Inl e \<Rightarrow> Inl e
         | Inr amountText \<Rightarrow>
             Inr (nameText @ '' | Qty: '' @ qtyText @ '' | Amount: '' @ amountText)))))"

definition partsSummary :: "(rat \<Rightarrow> string) \<Rightarrow> json list \<Rightarrow> error + string" where
  "partsSummary f parts =
     (case sequence (map (partSummary f) parts) of
        Inl e \<Rightarrow> Inl e
      | Inr ss \<Rightarrow> Inr (join '' | '' ss))"

text \<open>
  The record, given the summary of the parts and the text the template literal got for
  \<^verbatim>\<open>total || "0"\<close>.
\<close>

definition spares_record ::
  "runtime \<Rightarrow> json \<Rightarrow> string \<Rightarrow> string \<Rightarrow> (string \<times> json option) list" where
  "spares_record rt b summary totalText =
     [(''id'', Some (JStr (rt_uuid rt))),
      (''type'', Some (JStr ''Spare Parts'')),
      (''name'', js_get ''name'' b),
      (''phone'', js_get ''phone'' b),
      (''address'', js_get ''address'' b),
      (''details'', Some (JStr (summary @ '' | Total: '' @ totalText))),
      (''createdAt'', Some (JStr (rt_now rt)))]"

definition post_spares :: "runtime \<Rightarrow> disk \<Rightarrow> json option \<Rightarrow> effect" where
  "post_spares rt d reqBody =
     (let b = or_default reqBody (JObj []);
          name = js_get ''name'' b; phone = js_get ''phone'' b;
          address = js_get ''address'' b;
          parts = js_get ''parts'' b; total = js_get ''total'' b
      in if \<not> truthy name \<or> \<not> truthy phone \<or> \<not> truthy address
            \<or> arrayItems parts = None \<or> arrayItems parts = Some []
         then \<lparr>files = d, notified = [],
               outcome = respondError 400
                 ''Customer details and at least one part are required.''\<rparr>
         else
           (case partsSummary (rt_fmt rt) (case arrayItems parts of Some ps \<Rightarrow> ps | None \<Rightarrow> []) of
              Inl e \<Rightarrow> \<lparr>files = d, notified = [], outcome = Threw e\<rparr>
            | Inr summary \<Rightarrow>
           (case toString (rt_fmt rt) (or_default total (JStr ''0'')) of
              Inl e \<Rightarrow> \<lparr>files = d, notified = [], outcome = Threw e\<rparr>
            | Inr totalText \<Rightarrow>
                let record = spares_record rt b summary totalText in
                (case addRecord d spares
                        (JObj (mk_obj (record @ [(''parts'', parts), (''total'', total)]))) of
                   (d1, Inl e) \<Rightarrow> \<lparr>files = d1, notified = [], outcome = Threw e\<rparr>
                 | (d1, Inr r1) \<Rightarrow>
                     (case addRecord d1 customerRecords (JObj (mk_obj record)) of
                        (d2, Inl e) \<Rightarrow> \<lparr>files = d2, notified = [], outcome = Threw e\<rparr>
                      | (d2, Inr r2) \<Rightarrow>
                          \<lparr>files = d2,
                           notified =
                             (case tpl (rt_fmt rt) name of
                                Inl e \<Rightarrow> []
                              | Inr nameText \<Rightarrow>
                                  notifyCustomerAndAdmin (rt_provider rt) (rt_env rt) phone
                                    (rt_env rt ''ADMIN_PHONE'')
                                    (''Hi '' @ nameText
                                     @ '', your spare parts request was received. Items: ''
                                     @ summary @ ''. Total: '' @ totalText @ ''.'')),
                           outcome = res_json [(''ok'', Some (JBool True)),
                                               (''record'', Some (JObj (mk_obj record)))]\<rparr>)))))"

subsection \<open>Feedback\<close>

text \<open>
  The record holds \<^verbatim>\<open>ratingValue\<close>, a number; \<^verbatim>\<open>JSON.stringify\<close> would write a number that
  is not finite as \<^verbatim>\<open>null\<close>.
\<close>

fun numJson :: "jsnum \<Rightarrow> json" where
  "numJson (Fin r) = JNum r"
| "numJson x = JNull"

definition feedback_record :: "runtime \<Rightarrow> json \<Rightarrow> jsnum \<Rightarrow> (string \<times> json option) list" where
  "feedback_record rt b ratingValue =
     [(''id'', Some (JStr (rt_uuid rt))),
      (''name'', js_get ''name'' b),
      (''message'', js_get ''message'' b),
      (''rating'', Some (numJson ratingValue)),
      (''createdAt'', Some (JStr (rt_now rt)))]"

definition post_feedback :: "runtime \<Rightarrow> disk \<Rightarrow> json option \<Rightarrow> effect" where
  "post_feedback rt d reqBody =
     (let b = or_default reqBody (JObj []);
          name = js_get ''name'' b; message = js_get ''message'' b;
          rating = js_get ''rating'' b
      in case Number (rt_fmt rt) (rt_rnd rt) rating of
           Inl e \<Rightarrow> \<lparr>files = d, notified = [], outcome = Threw e\<rparr>
         | Inr ratingValue \<Rightarrow>
         if \<not> truthy name \<or> \<not> truthy message \<or> \<not> isFinite ratingValue \<or> le_zero ratingValue
         then \<lparr>files = d, notified = [],
               outcome = respondError 400 ''Name, message, and rating are required.''\<rparr>
         else
           let record = feedback_record rt b ratingValue in
           (case addRecord d feedback (JObj (mk_obj record)) of
              (d1, Inl e) \<Rightarrow> \<lparr>files = d1, notified = [], outcome = Threw e\<rparr>
            | (d1, Inr r1) \<Rightarrow>
                \<lparr>files = d1, notified = [],
                 outcome = res_json [(''ok'', Some (JBool True)),
                                     (''record'', Some (JObj (mk_obj record)))]\<rparr>))"

definition get_feedback :: "disk \<Rightarrow> effect" where
  "get_feedback d =
     (case loadStore d feedback of
        (d1, Inl e) \<Rightarrow> \<lparr>files = d1, notified = [], outcome = Threw e\<rparr>
      | (d1, Inr records) \<Rightarrow>
          \<lparr>files = d1, notified = [],
           outcome = res_json [(''ok'', Some (JBool True)), (''records'', Some records)]\<rparr>)"

subsection \<open>Contact\<close>

definition contact_record :: "runtime \<Rightarrow> json \<Rightarrow> (string \<times> json option) list" where
  "contact_record rt b =
     [(''id'', Some (JStr (rt_uuid rt))),
      (''name'', js_get ''name'' b),
      (''phone'', js_get ''phone'' b),
      (''message'', js_get ''message'' b),
      (''createdAt'', Some (JStr (rt_now rt)))]"

definition post_contact :: "runtime \<Rightarrow> disk \<Rightarrow> json option \<Rightarrow> effect" where
  "post_contact rt d reqBody =
     (let b = or_default reqBody (JObj []);
          name = js_get ''name'' b; phone = js_get ''phone'' b;
          message = js_get ''message'' b
      in if \<not> truthy name \<or> \<not> truthy phone \<or> \<not> truthy message
         then \<lparr>files = d, notified = [],
               outcome = respondError 400 ''All contact fields are required.''\<rparr>
         else
           (case addRecord d contacts (JObj (mk_obj (contact_record rt b))) of
              (d1, Inl e) \<Rightarrow> \<lparr>files = d1, notified = [], outcome = Threw e\<rparr>
            | (d1, Inr r1) \<Rightarrow>
                \<lparr>files = d1, notified = [],
                 outcome = res_json [(''ok'', Some (JBool True))]\<rparr>))"

subsection \<open>Customer records\<close>

definition get_customer_records :: "disk \<Rightarrow> effect" where
  "get_customer_records d =
     (case loadStore d customerRecords of
        (d1, Inl e) \<Rightarrow> \<lparr>files = d1, notified = [], outcome = Threw e\<rparr>
      | (d1, Inr records) \<Rightarrow>
          \<lparr>files = d1, notified = [],
           outcome = res_json [(''ok'', Some (JBool True)), (''records'', Some records)]\<rparr>)"

text \<open>
  The callback of \<^verbatim>\<open>records.filter\<close>: \<^verbatim>\<open>record.id !== id\<close>, where \<open>id\<close> is the path
  parameter, a string. \<^verbatim>\<open>records.filter\<close> is a function only on an array, and the callback
  throws on a \<^verbatim>\<open>null\<close> element.
\<close>

definition keeps :: "string \<Rightarrow> json \<Rightarrow> bool" where
  "keeps ident record = (js_get ''id'' record \<noteq> Some (JStr ident))"

definition delete_customer_record :: "disk \<Rightarrow> string \<Rightarrow> effect" where
  "delete_customer_record d ident =
     (case loadStore d customerRecords of
        (d1, Inl e) \<Rightarrow> \<lparr>files = d1, notified = [], outcome = Threw e\<rparr>
      | (d1, Inr (JArr records)) \<Rightarrow>
          if JNull \<in> set records
          then \<lparr>files = d1, notified = [], outcome = Threw TypeError\<rparr>
          else
            let next = filter (keeps ident) records in
            if length next = length records
            then \<lparr>files = d1, notified = [], outcome = respondError 404 ''Record not found.''\<rparr>
            else \<lparr>files = saveStore d1 customerRecords (JArr next), notified = [],
                  outcome = res_json [(''ok'', Some (JBool True))]\<rparr>
      | (d1, Inr other) \<Rightarrow> \<lparr>files = d1, notified = [], outcome = Threw TypeError\<rparr>)"

section \<open>Notions used to state the properties\<close>

text \<open>The field of the request as the handlers read it: \<^verbatim>\<open>(req.body || {}).key\<close>.\<close>

definition submitted :: "string \<Rightarrow> json option \<Rightarrow> json option" where
  "submitted k reqBody = js_get k (or_default reqBody (JObj []))"

text \<open>
  The sequence of records a store holds: what \<^verbatim>\<open>loadStore\<close> returns when that is an
  array, nothing when the load throws or returns something else.
\<close>

definition store_seq :: "disk \<Rightarrow> store_key \<Rightarrow> json list option" where
  "store_seq d key =
     (case snd (loadStore d key) of
        Inr (JArr records) \<Rightarrow> Some records
      | _ \<Rightarrow> None)"

fun status_of :: "outcome \<Rightarrow> nat option" where
  "status_of (Responded r) = Some (status r)"
| "status_of (Threw e) = None"

fun body_of :: "outcome \<Rightarrow> json option" where
  "body_of (Responded r) = Some (body r)"
| "body_of (Threw e) = None"

text \<open>
  The specification's wording of the deletion: the first record whose identifier matches
  is removed.
\<close>

fun spec_remove_first :: "string \<Rightarrow> json list \<Rightarrow> json list" where
  "spec_remove_first ident [] = []"
| "spec_remove_first ident (r # rs) =
     (if js_get ''id'' r = Some (JStr ident) then rs else r # spec_remove_first ident rs)"

text \<open>
  The specification's wording of the spare-parts summary: a default stands in for a field
  that is absent.
\<close>

fun spec_default :: "json option \<Rightarrow> json \<Rightarrow> json" where
  "spec_default None d = d"
| "spec_default (Some v) d = v"

text \<open>The text of a value that converts to a string; empty where the conversion throws.\<close>

definition text_of :: "(rat \<Rightarrow> string) \<Rightarrow> json \<Rightarrow> string" where
  "text_of f v = (case toString f v of Inl e \<Rightarrow> [] | Inr s \<Rightarrow> s)"

definition spec_partSummary :: "(rat \<Rightarrow> string) \<Rightarrow> json \<Rightarrow> string" where
  "spec_partSummary f part =
     text_of f (spec_default (js_get ''name'' part) (JStr ''Part''))
     @ '' | Qty: '' @ text_of f (spec_default (js_get ''qty'' part) (JStr ''1''))
     @ '' | Amount: '' @ text_of f (spec_default (js_get ''amount'' part) (JStr ''0''))"

definition spec_details :: "(rat \<Rightarrow> string) \<Rightarrow> json list \<Rightarrow> json option \<Rightarrow> string" where
  "spec_details f parts tot =
     join '' | '' (map (spec_partSummary f) parts)
     @ '' | Total: '' @ text_of f (spec_default tot (JStr ''0''))"

text \<open>The field \<open>k\<close> of the \<^verbatim>\<open>record\<close> in a response body, if the body has a record.\<close>

fun record_field :: "string \<Rightarrow> outcome \<Rightarrow> json option" where
  "record_field k (Responded r) =
     (case js_get ''record'' (body r) of Some record \<Rightarrow> js_get k record | None \<Rightarrow> None)"
| "record_field k (Threw e) = None"

section \<open>Example inputs\<close>

text \<open>
  A disk with no store file yet, a provider that accepts everything, a runtime with no
  environment variable set, and some request bodies.
\<close>

definition no_files :: disk where
  "no_files = (\<lambda>p. ReadError ''ENOENT'')"

definition no_provider :: provider where
  "no_provider = \<lparr>twilio = (\<lambda>sid token. None), create = (\<lambda>m. None)\<rparr>"

definition ex_runtime :: runtime where
  "ex_runtime =
     \<lparr>rt_env = (\<lambda>v. None), rt_provider = no_provider, rt_fmt = (\<lambda>r. ''?''), rt_rnd = Fin,
      rt_uuid = ''7d9f0c1e'', rt_now = ''2024-05-01T10:00:00.000Z''\<rparr>"

definition ex_spares :: "json option" where
  "ex_spares = Some (JObj
     [(''name'', JStr ''Ravi''), (''phone'', JStr ''9876543210''),
      (''address'', JStr ''4 Lake Road''),
      (''parts'', JArr [JObj [(''name'', JStr ''Brake Pad''), (''qty'', JNum 2),
                              (''amount'', JNum 500)]]),
      (''total'', JNum 1000)])"

definition ex_spares_zero_qty :: "json option" where
  "ex_spares_zero_qty = Some (JObj
     [(''name'', JStr ''Ravi''), (''phone'', JStr ''9876543210''),
      (''address'', JStr ''4 Lake Road''),
      (''parts'', JArr [JObj [(''name'', JStr ''Oil''), (''qty'', JNum 0),
                              (''amount'', JNum 5)]]),
      (''total'', JNum 5)])"

definition ex_dup_records :: "json list" where
  "ex_dup_records =
     [JObj [(''id'', JStr ''a''), (''name'', JStr ''first'')],
      JObj [(''id'', JStr ''b''), (''name'', JStr ''other'')],
      JObj [(''id'', JStr ''a''), (''name'', JStr ''second'')]]"

definition ex_appointment :: "json option" where
  "ex_appointment = Some (JObj
     [(''name'', JStr ''Asha''), (''phone'', JStr ''9876543210''),
      (''address'', JStr ''12 Main Road''),
      (''vehicle'', JStr ''Swift''), (''issue'', JStr ''Brake noise'')])"

definition ex_contact :: "json option" where
  "ex_contact = Some (JObj
     [(''name'', JStr ''Asha''), (''phone'', JStr ''9876543210''),
      (''message'', JStr ''Please call back'')])"

definition ex_feedback :: "json \<Rightarrow> json option" where
  "ex_feedback rating = Some (JObj
     [(''name'', JStr ''Asha''), (''message'', JStr ''Quick service''),
      (''rating'', rating)])"

text \<open>
  An appointment whose vehicle is an object with an own property \<^verbatim>\<open>toString\<close>, and a
  feedback body that holds nothing but such a rating.
\<close>

definition ex_appointment_unprintable :: "json option" where
  "ex_appointment_unprintable = Some (JObj
     [(''name'', JStr ''Asha''), (''phone'', JStr ''9876543210''),
      (''address'', JStr ''12 Main Road''),
      (''vehicle'', JObj [(''toString'', JStr ''x'')]), (''issue'', JStr ''Brake noise'')])"

definition ex_feedback_rating_only :: "json option" where
  "ex_feedback_rating_only = Some (JObj [(''rating'', JObj [(''toString'', JNum 1)])])"

definition ex_sms_env :: env where
  "ex_sms_env =
     (\<lambda>v. None)(''TWILIO_SID'' := Some ''AC0001'', ''TWILIO_AUTH'' := Some ''secret'',
                 ''TWILIO_PHONE'' := Some ''+15005550006'')"

section \<open>Facts about the store engine\<close>

lemma STORE_FILES_inj: "STORE_FILES k = STORE_FILES k' \<longleftrightarrow> k = k'"
  by (cases k; cases k'; simp)

lemma store_seq_iff:
  "store_seq d key = Some xs \<longleftrightarrow>
     (d (STORE_FILES key) = ReadError ''ENOENT'' \<and> xs = [])
     \<or> (d (STORE_FILES key) = Parsed JNull \<and> xs = [])
     \<or> d (STORE_FILES key) = Parsed (JArr xs)"
  by (auto simp: store_seq_def loadStore_def readJson_def writeJson_def
           split: file_read.splits json.splits if_splits)

lemma store_seq_upd:
  "store_seq (d(p := Parsed (JArr xs))) key
     = (if p = STORE_FILES key then Some xs else store_seq d key)"
  by (simp add: store_seq_def loadStore_def readJson_def writeJson_def
           split: file_read.splits)

lemma loadStore_seq:
  assumes "store_seq d key = Some xs"
  shows "snd (loadStore d key) = Inr (JArr xs)"
    and "store_seq (fst (loadStore d key)) key = Some xs"
    and "fst (loadStore d key) =
           (if d (STORE_FILES key) = ReadError ''ENOENT''
            then d(STORE_FILES key := Parsed (JArr [])) else d)"
  using assms
  by (auto simp: store_seq_iff loadStore_def readJson_def writeJson_def)

lemma addRecord_seq:
  assumes "store_seq d key = Some xs"
  shows "addRecord d key r = (d(STORE_FILES key := Parsed (JArr (xs @ [r]))), Inr r)"
  using assms
  by (auto simp: store_seq_iff addRecord_def loadStore_def readJson_def writeJson_def
        saveStore_def)

section \<open>Facts about the handlers\<close>

lemma loadStore_eq:
  assumes "store_seq d key = Some xs"
  shows "loadStore d key =
           (if d (STORE_FILES key) = ReadError ''ENOENT''
            then d(STORE_FILES key := Parsed (JArr [])) else d, Inr (JArr xs))"
  using loadStore_seq [OF assms] by (simp add: prod_eq_iff)

lemma keeps_eq: "keeps ident = (\<lambda>r. js_get ''id'' r \<noteq> Some (JStr ident))"
  by (simp add: fun_eq_iff keeps_def)

lemma length_filter_same:
  "length (filter P xs) = length xs \<longleftrightarrow> (\<forall>x\<in>set xs. P x)"
proof (induction xs)
  case Nil
  then show ?case by simp
next
  case (Cons x xs)
  show ?case
  proof (cases "P x")
    case True
    with Cons show ?thesis by simp
  next
    case False
    have "length (filter P xs) \<le> length xs" by (rule length_filter_le)
    then have "length (filter P xs) \<noteq> Suc (length xs)" by arith
    with False show ?thesis by simp
  qed
qed

lemma no_match_iff:
  "length (filter (keeps ident) records) = length records
     \<longleftrightarrow> (\<forall>r\<in>set records. js_get ''id'' r \<noteq> Some (JStr ident))"
  by (simp add: length_filter_same keeps_eq)

lemma remove_first_is_filter:
  "length (filter (\<lambda>r. js_get ''id'' r = Some (JStr ident)) records) \<le> 1
     \<Longrightarrow> spec_remove_first ident records = filter (keeps ident) records"
proof (induction records)
  case Nil
  then show ?case by simp
next
  case (Cons r rs)
  show ?case
  proof (cases "js_get ''id'' r = Some (JStr ident)")
    case True
    with Cons.prems have "filter (\<lambda>r. js_get ''id'' r = Some (JStr ident)) rs = []"
      by simp
    then have "filter (keeps ident) rs = rs"
      by (simp add: keeps_eq filter_empty_conv filter_id_conv)
    with True show ?thesis by (simp add: keeps_eq)
  next
    case False
    with Cons show ?thesis by (simp add: keeps_eq)
  qed
qed

lemma not_positive_iff:
  "(\<not> isFinite x \<or> le_zero x) \<longleftrightarrow> \<not> (\<exists>r. x = Fin r \<and> 0 < r)"
  by (cases x) auto

lemma addRecord_two:
  assumes "store_seq d k1 = Some xs" and "store_seq d k2 = Some ys" and "k1 \<noteq> k2"
  shows "addRecord d k1 r1 = (d(STORE_FILES k1 := Parsed (JArr (xs @ [r1]))), Inr r1)"
    and "addRecord (d(STORE_FILES k1 := Parsed (JArr zs))) k2 r2 =
           (d(STORE_FILES k1 := Parsed (JArr zs), STORE_FILES k2 := Parsed (JArr (ys @ [r2]))),
            Inr r2)"
proof -
  show "addRecord d k1 r1 = (d(STORE_FILES k1 := Parsed (JArr (xs @ [r1]))), Inr r1)"
    by (rule addRecord_seq [OF assms(1)])
  have "store_seq (d(STORE_FILES k1 := Parsed (JArr zs))) k2 = Some ys"
    using assms(2,3) by (simp add: store_seq_upd STORE_FILES_inj)
  then show "addRecord (d(STORE_FILES k1 := Parsed (JArr zs))) k2 r2 =
           (d(STORE_FILES k1 := Parsed (JArr zs), STORE_FILES k2 := Parsed (JArr (ys @ [r2]))),
            Inr r2)"
    by (rule addRecord_seq)
qed

lemma appointment_response:
  assumes "submitted ''name'' reqBody = Some n" and "truthy (Some n)"
    and "submitted ''phone'' reqBody = Some p" and "truthy (Some p)"
    and "submitted ''address'' reqBody = Some a" and "truthy (Some a)"
    and "submitted ''vehicle'' reqBody = Some v" and "truthy (Some v)"
    and "submitted ''issue'' reqBody = Some i" and "truthy (Some i)"
    and "toString (rt_fmt rt) v = Inr vehicleText"
    and "toString (rt_fmt rt) i = Inr issueText"
    and s: "store_seq d appointments = Some apps" "store_seq d customerRecords = Some custs"
  shows "outcome (post_appointments rt d reqBody) =
          Responded \<lparr>status = 200, body = JObj [(''ok'', JBool True),
            (''record'', JObj [(''id'', JStr (rt_uuid rt)), (''type'', JStr ''Appointment''),
               (''name'', n), (''phone'', p), (''address'', a),
               (''details'', JStr (''Vehicle: '' @ vehicleText @ '' | Issue: '' @ issueText)),
               (''createdAt'', JStr (rt_now rt))])]\<rparr>"
    and "files (post_appointments rt d reqBody) =
          d(STORE_FILES appointments := Parsed (JArr (apps @
              [JObj [(''id'', JStr (rt_uuid rt)), (''type'', JStr ''Appointment''),
                 (''name'', n), (''phone'', p), (''address'', a),
                 (''details'', JStr (''Vehicle: '' @ vehicleText @ '' | Issue: '' @ issueText)),
                 (''createdAt'', JStr (rt_now rt)), (''vehicle'', v), (''issue'', i)]])),
            STORE_FILES customerRecords := Parsed (JArr (custs @
              [JObj [(''id'', JStr (rt_uuid rt)), (''type'', JStr ''Appointment''),
                 (''name'', n), (''phone'', p), (''address'', a),
                 (''details'', JStr (''Vehicle: '' @ vehicleText @ '' | Issue: '' @ issueText)),
                 (''createdAt'', JStr (rt_now rt))]])))"
proof -
  note w = addRecord_two [OF s]
  have p: "post_appointments rt d reqBody =
     \<lparr>files = d(STORE_FILES appointments := Parsed (JArr (apps @
              [JObj [(''id'', JStr (rt_uuid rt)), (''type'', JStr ''Appointment''),
                 (''name'', n), (''phone'', p), (''address'', a),
                 (''details'', JStr (''Vehicle: '' @ vehicleText @ '' | Issue: '' @ issueText)),
                 (''createdAt'', JStr (rt_now rt)), (''vehicle'', v), (''issue'', i)]])),
            STORE_FILES customerRecords := Parsed (JArr (custs @
              [JObj [(''id'', JStr (rt_uuid rt)), (''type'', JStr ''Appointment''),
                 (''name'', n), (''phone'', p), (''address'', a),
                 (''details'', JStr (''Vehicle: '' @ vehicleText @ '' | Issue: '' @ issueText)),
                 (''createdAt'', JStr (rt_now rt))]]))),
      notified =
        (case toString (rt_fmt rt) n of
           Inl e \<Rightarrow> []
         | Inr nameText \<Rightarrow>
             notifyCustomerAndAdmin (rt_provider rt) (rt_env rt) (Some p)
               (rt_env rt ''ADMIN_PHONE'')
               (''Hi '' @ nameText @ '', your appointment is confirmed. Vehicle: ''
                @ vehicleText @ ''. Issue: '' @ issueText @ ''.'')),
      outcome = Responded \<lparr>status = 200, body = JObj [(''ok'', JBool True),
            (''record'', JObj [(''id'', JStr (rt_uuid rt)), (''type'', JStr ''Appointment''),
               (''name'', n), (''phone'', p), (''address'', a),
               (''details'', JStr (''Vehicle: '' @ vehicleText @ '' | Issue: '' @ issueText)),
               (''createdAt'', JStr (rt_now rt))])]\<rparr>\<rparr>"
    using assms(1-12) unfolding submitted_def
    by (simp add: post_appointments_def Let_def appointment_record_def w res_json_def
          del: STORE_FILES.simps split: sum.split)
  show "outcome (post_appointments rt d reqBody) =
          Responded \<lparr>status = 200, body = JObj [(''ok'', JBool True),
            (''record'', JObj [(''id'', JStr (rt_uuid rt)), (''type'', JStr ''Appointment''),
               (''name'', n), (''phone'', p), (''address'', a),
               (''details'', JStr (''Vehicle: '' @ vehicleText @ '' | Issue: '' @ issueText)),
               (''createdAt'', JStr (rt_now rt))])]\<rparr>"
    unfolding p by simp
  show "files (post_appointments rt d reqBody) =
          d(STORE_FILES appointments := Parsed (JArr (apps @
              [JObj [(''id'', JStr (rt_uuid rt)), (''type'', JStr ''Appointment''),
                 (''name'', n), (''phone'', p), (''address'', a),
                 (''details'', JStr (''Vehicle: '' @ vehicleText @ '' | Issue: '' @ issueText)),
                 (''createdAt'', JStr (rt_now rt)), (''vehicle'', v), (''issue'', i)]])),
            STORE_FILES customerRecords := Parsed (JArr (custs @
              [JObj [(''id'', JStr (rt_uuid rt)), (''type'', JStr ''Appointment''),
                 (''name'', n), (''phone'', p), (''address'', a),
                 (''details'', JStr (''Vehicle: '' @ vehicleText @ '' | Issue: '' @ issueText)),
                 (''createdAt'', JStr (rt_now rt))]])))"
    unfolding p by simp
qed

lemma sequence_map_Inr: "sequence (map Inr xs) = Inr xs"
  by (induction xs) simp_all

lemma sequence_Inr: "sequence rs = Inr xs \<Longrightarrow> rs = map Inr xs"
  by (induction rs arbitrary: xs rule: sequence.induct) (auto split: sum.splits)

lemma partSummary_Inr:
  assumes "partSummary f part = Inr s"
  shows "s = text_of f (or_default (js_get ''name'' part) (JStr ''Part''))
             @ '' | Qty: '' @ text_of f (or_default (js_get ''qty'' part) (JStr ''1''))
             @ '' | Amount: '' @ text_of f (or_default (js_get ''amount'' part) (JStr ''0''))"
    and "part \<noteq> JNull"
  using assms by (auto simp: partSummary_def text_of_def split: if_splits sum.splits)

lemma partsSummary_Inr:
  assumes "partsSummary f ps = Inr summary"
  shows "summary = join '' | '' (map (\<lambda>part.
             text_of f (or_default (js_get ''name'' part) (JStr ''Part''))
             @ '' | Qty: '' @ text_of f (or_default (js_get ''qty'' part) (JStr ''1''))
             @ '' | Amount: '' @ text_of f (or_default (js_get ''amount'' part) (JStr ''0''))) ps)"
    and "JNull \<notin> set ps"
proof -
  from assms obtain ss where ss: "sequence (map (partSummary f) ps) = Inr ss"
    and sm: "summary = join '' | '' ss"
    by (auto simp: partsSummary_def split: sum.splits)
  from ss have m: "map (partSummary f) ps = map Inr ss"
    by (simp add: sequence_Inr)
  then have len: "length ps = length ss"
    by (metis length_map)
  have each: "partSummary f (ps ! k) = Inr (ss ! k)" if "k < length ps" for k
    using that m len by (metis nth_map)
  have "ss = map (\<lambda>part.
             text_of f (or_default (js_get ''name'' part) (JStr ''Part''))
             @ '' | Qty: '' @ text_of f (or_default (js_get ''qty'' part) (JStr ''1''))
             @ '' | Amount: '' @ text_of f (or_default (js_get ''amount'' part) (JStr ''0''))) ps"
    using len partSummary_Inr(1) [OF each] by (intro nth_equalityI) simp_all
  with sm show "summary = join '' | '' (map (\<lambda>part.
             text_of f (or_default (js_get ''name'' part) (JStr ''Part''))
             @ '' | Qty: '' @ text_of f (or_default (js_get ''qty'' part) (JStr ''1''))
             @ '' | Amount: '' @ text_of f (or_default (js_get ''amount'' part) (JStr ''0''))) ps)"
    by simp
  show "JNull \<notin> set ps"
  proof
    assume "JNull \<in> set ps"
    then obtain k where "k < length ps" "ps ! k = JNull"
      by (auto simp: in_set_conv_nth)
    with each [of k] show False
      by (simp add: partSummary_def)
  qed
qed

lemma spares_response:
  assumes "submitted ''name'' reqBody = Some n" and "truthy (Some n)"
    and "submitted ''phone'' reqBody = Some p" and "truthy (Some p)"
    and "submitted ''address'' reqBody = Some a" and "truthy (Some a)"
    and "submitted ''parts'' reqBody = Some (JArr ps)" and "ps \<noteq> []"
    and "partsSummary (rt_fmt rt) ps = Inr summary"
    and "toString (rt_fmt rt) (or_default (submitted ''total'' reqBody) (JStr ''0''))
           = Inr totalText"
    and s: "store_seq d spares = Some sps" "store_seq d customerRecords = Some custs"
  shows "outcome (post_spares rt d reqBody) =
          Responded \<lparr>status = 200, body = JObj [(''ok'', JBool True),
            (''record'', JObj [(''id'', JStr (rt_uuid rt)), (''type'', JStr ''Spare Parts''),
               (''name'', n), (''phone'', p), (''address'', a),
               (''details'', JStr (summary @ '' | Total: '' @ totalText)),
               (''createdAt'', JStr (rt_now rt))])]\<rparr>"
    and "files (post_spares rt d reqBody) =
          d(STORE_FILES spares := Parsed (JArr (sps @
              [JObj ([(''id'', JStr (rt_uuid rt)), (''type'', JStr ''Spare Parts''),
                 (''name'', n), (''phone'', p), (''address'', a),
                 (''details'', JStr (summary @ '' | Total: '' @ totalText)),
                 (''createdAt'', JStr (rt_now rt)), (''parts'', JArr ps)]
                 @ mk_obj [(''total'', submitted ''total'' reqBody)])])),
            STORE_FILES customerRecords := Parsed (JArr (custs @
              [JObj [(''id'', JStr (rt_uuid rt)), (''type'', JStr ''Spare Parts''),
                 (''name'', n), (''phone'', p), (''address'', a),
                 (''details'', JStr (summary @ '' | Total: '' @ totalText)),
                 (''createdAt'', JStr (rt_now rt))]])))"
proof -
  note w = addRecord_two [OF s]
  have p: "post_spares rt d reqBody =
     \<lparr>files = d(STORE_FILES spares := Parsed (JArr (sps @
              [JObj ([(''id'', JStr (rt_uuid rt)), (''type'', JStr ''Spare Parts''),
                 (''name'', n), (''phone'', p), (''address'', a),
                 (''details'', JStr (summary @ '' | Total: '' @ totalText)),
                 (''createdAt'', JStr (rt_now rt)), (''parts'', JArr ps)]
                 @ mk_obj [(''total'', submitted ''total'' reqBody)])])),
            STORE_FILES customerRecords := Parsed (JArr (custs @
              [JObj [(''id'', JStr (rt_uuid rt)), (''type'', JStr ''Spare Parts''),
                 (''name'', n), (''phone'', p), (''address'', a),
                 (''details'', JStr (summary @ '' | Total: '' @ totalText)),
                 (''createdAt'', JStr (rt_now rt))]]))),
      notified =
        (case toString (rt_fmt rt) n of
           Inl e \<Rightarrow> []
         | Inr nameText \<Rightarrow>
             notifyCustomerAndAdmin (rt_provider rt) (rt_env rt) (Some p)
               (rt_env rt ''ADMIN_PHONE'')
               (''Hi '' @ nameText @ '', your spare parts request was received. Items: ''
                @ summary @ ''. Total: '' @ totalText @ ''.'')),
      outcome = Responded \<lparr>status = 200, body = JObj [(''ok'', JBool True),
            (''record'', JObj [(''id'', JStr (rt_uuid rt)), (''type'', JStr ''Spare Parts''),
               (''name'', n), (''phone'', p), (''address'', a),
               (''details'', JStr (summary @ '' | Total: '' @ totalText)),
               (''createdAt'', JStr (rt_now rt))])]\<rparr>\<rparr>"
    using assms(1-10) unfolding submitted_def
    by (simp add: post_spares_def Let_def spares_record_def w res_json_def
          del: STORE_FILES.simps split: sum.split)
  show "outcome (post_spares rt d reqBody) =
          Responded \<lparr>status = 200, body = JObj [(''ok'', JBool True),
            (''record'', JObj [(''id'', JStr (rt_uuid rt)), (''type'', JStr ''Spare Parts''),
               (''name'', n), (''phone'', p), (''address'', a),
               (''details'', JStr (summary @ '' | Total: '' @ totalText)),
               (''createdAt'', JStr (rt_now rt))])]\<rparr>"
    unfolding p by simp
  show "files (post_spares rt d reqBody) =
          d(STORE_FILES spares := Parsed (JArr (sps @
              [JObj ([(''id'', JStr (rt_uuid rt)), (''type'', JStr ''Spare Parts''),
                 (''name'', n), (''phone'', p), (''address'', a),
                 (''details'', JStr (summary @ '' | Total: '' @ totalText)),
                 (''createdAt'', JStr (rt_now rt)), (''parts'', JArr ps)]
                 @ mk_obj [(''total'', submitted ''total'' reqBody)])])),
            STORE_FILES customerRecords := Parsed (JArr (custs @
              [JObj [(''id'', JStr (rt_uuid rt)), (''type'', JStr ''Spare Parts''),
                 (''name'', n), (''phone'', p), (''address'', a),
                 (''details'', JStr (summary @ '' | Total: '' @ totalText)),
                 (''createdAt'', JStr (rt_now rt))]])))"
    unfolding p by simp
qed

lemma contact_response:
  assumes "submitted ''name'' reqBody = Some n" and "truthy (Some n)"
    and "submitted ''phone'' reqBody = Some p" and "truthy (Some p)"
    and "submitted ''message'' reqBody = Some m" and "truthy (Some m)"
    and s: "store_seq d contacts = Some xs"
  shows "post_contact rt d reqBody =
     \<lparr>files = d(STORE_FILES contacts := Parsed (JArr (xs @
         [JObj [(''id'', JStr (rt_uuid rt)), (''name'', n), (''phone'', p), (''message'', m),
                (''createdAt'', JStr (rt_now rt))]]))),
      notified = [],
      outcome = Responded \<lparr>status = 200, body = JObj [(''ok'', JBool True)]\<rparr>\<rparr>"
  using assms(1-6)
  by (simp add: post_contact_def Let_def submitted_def contact_record_def
        addRecord_seq [OF s] res_json_def del: STORE_FILES.simps)

lemma post_feedback_accepted:
  assumes "submitted ''name'' reqBody = Some n" and "truthy (Some n)"
    and "submitted ''message'' reqBody = Some m" and "truthy (Some m)"
    and "Number (rt_fmt rt) (rt_rnd rt) (submitted ''rating'' reqBody) = Inr (Fin r)"
    and "0 < r"
    and s: "store_seq d feedback = Some xs"
  shows "post_feedback rt d reqBody =
     \<lparr>files = d(STORE_FILES feedback := Parsed (JArr (xs @
         [JObj [(''id'', JStr (rt_uuid rt)), (''name'', n), (''message'', m),
                (''rating'', JNum r), (''createdAt'', JStr (rt_now rt))]]))),
      notified = [],
      outcome = Responded \<lparr>status = 200, body = JObj [(''ok'', JBool True),
         (''record'', JObj [(''id'', JStr (rt_uuid rt)), (''name'', n), (''message'', m),
                (''rating'', JNum r), (''createdAt'', JStr (rt_now rt))])]\<rparr>\<rparr>"
  using assms(1-6)
  by (simp add: post_feedback_def Let_def submitted_def feedback_record_def
        addRecord_seq [OF s] res_json_def del: STORE_FILES.simps)

lemma post_feedback_rejected:
  assumes "Number (rt_fmt rt) (rt_rnd rt) (submitted ''rating'' reqBody) = Inr x"
    and "\<not> truthy (submitted ''name'' reqBody) \<or> \<not> truthy (submitted ''message'' reqBody)
         \<or> \<not> (\<exists>r. x = Fin r \<and> 0 < r)"
  shows "post_feedback rt d reqBody =
       \<lparr>files = d, notified = [],
        outcome = Responded \<lparr>status = 400, body = JObj [(''ok'', JBool False),
          (''message'', JStr ''Name, message, and rating are required.'')]\<rparr>\<rparr>"
proof -
  from assms(2)
  have "\<not> truthy (submitted ''name'' reqBody) \<or> \<not> truthy (submitted ''message'' reqBody)
      \<or> \<not> isFinite x \<or> le_zero x"
    using not_positive_iff [of x] by blast
  then show ?thesis
    using assms(1)
    unfolding post_feedback_def submitted_def respondError_def Let_def
    by auto
qed

lemma post_feedback_throws:
  assumes "Number (rt_fmt rt) (rt_rnd rt) (submitted ''rating'' reqBody) = Inl e"
  shows "post_feedback rt d reqBody = \<lparr>files = d, notified = [], outcome = Threw e\<rparr>"
  using assms unfolding post_feedback_def submitted_def Let_def by simp

lemma StringToNumber_abc: "StringToNumber g ''abc'' = NaN"
  by (simp add: StringToNumber_def trim_def isWhite_def nonDecimal_def unsignedDecimal_def
        isDigit_def)

lemma StringToNumber_5: "StringToNumber g ''5'' = g 5"
  by (simp add: StringToNumber_def trim_def isWhite_def nonDecimal_def unsignedDecimal_def
        isDigit_def exponentPart_def digitsVal_def digitVal_def Let_def)

lemma showNat_examples:
  "showNat 2 = ''2''" "showNat 500 = ''500''" "showNat 1000 = ''1000''"
  "showNat 5 = ''5''" "showNat 0 = ''0''"
  by (simp_all add: showNat.simps)

lemma numberToString_examples:
  "numberToString f 2 = ''2''" "numberToString f 500 = ''500''"
  "numberToString f 1000 = ''1000''" "numberToString f 5 = ''5''"
  "numberToString f 0 = ''0''"
  by (simp_all add: numberToString_def showNat_examples)

lemma validPhone_iff:
  "validPhone t \<longleftrightarrow>
     (\<exists>ds. t = CHR ''+'' # ds \<and> set ds \<subseteq> set ''0123456789''
           \<and> 10 \<le> length ds \<and> length ds \<le> 15)"
proof (cases t)
  case Nil
  then show ?thesis by (simp add: validPhone_def)
next
  case (Cons c ds)
  have "list_all isDigit ds \<longleftrightarrow> set ds \<subseteq> set ''0123456789''"
    unfolding list_all_iff isDigit_def by blast
  with Cons show ?thesis by (simp add: validPhone_def)
qed

lemma isDigit_eq: "isDigit = (\<lambda>c. c \<in> set ''0123456789'')"
  unfolding isDigit_def by (rule refl)

lemma normalizeTo_no_plus:
  "t = [] \<or> hd t \<noteq> CHR ''+'' \<Longrightarrow>
     normalizeTo ev t = env_or (ev ''DEFAULT_COUNTRY_CODE'') ''+91''
                          @ filter (\<lambda>c. c \<in> set ''0123456789'') t"
  unfolding isDigit_eq [symmetric]
  by (cases t) (simp_all add: normalizeTo_def startsWithPlus_def)

lemma normalizeTo_plus:
  "t \<noteq> [] \<and> hd t = CHR ''+'' \<Longrightarrow> normalizeTo ev t = t"
  by (cases t) (simp_all add: normalizeTo_def startsWithPlus_def)

lemma sendSms_configured:
  assumes "getTwilioClient P ev = Inr (Some client)"
    and "ev ''TWILIO_PHONE'' = Some sender" and "sender \<noteq> []"
  shows "sendSms P ev (JStr u) msg =
      (if validPhone (normalizeTo ev u)
       then (case create P \<lparr>sms_from = sender, sms_to = normalizeTo ev u, sms_body = msg\<rparr> of
                 None \<Rightarrow> Sent \<lparr>sms_from = sender, sms_to = normalizeTo ev u, sms_body = msg\<rparr>
               | Some e \<Rightarrow> Rejected e)
       else Skipped (''Invalid phone number '' @ [CHR 0x22] @ normalizeTo ev u @ [CHR 0x22]
                       @ ''. Skipping SMS.''))"
  using assms by (simp add: sendSms_def Let_def)

lemma normalize_examples:
  "ev ''DEFAULT_COUNTRY_CODE'' = None \<Longrightarrow>
      normalizeTo ev ''9876543210'' = ''+919876543210''"
  "normalizeTo ev ''+14155552671'' = ''+14155552671''"
  "ev ''DEFAULT_COUNTRY_CODE'' = None \<Longrightarrow> normalizeTo ev ''123'' = ''+91123''"
  "\<not> validPhone ''+91123''"
  by (simp_all add: normalizeTo_def startsWithPlus_def isDigit_def validPhone_def)

lemma env_or_nonempty: "dflt \<noteq> [] \<Longrightarrow> env_or v dflt \<noteq> []"
  by (cases v) simp_all

lemma login_eq:
  "login ev reqBody =
     (if \<not> truthy (submitted ''username'' reqBody) \<or> \<not> truthy (submitted ''password'' reqBody)
      then Responded \<lparr>status = 400, body = JObj [(''ok'', JBool False),
              (''message'', JStr ''Missing username or password.'')]\<rparr>
      else if submitted ''username'' reqBody \<noteq> Some (JStr (env_or (ev ''ADMIN_USER'') ''admin''))
              \<or> submitted ''password'' reqBody
                  \<noteq> Some (JStr (env_or (ev ''ADMIN_PASS'') ''admin123''))
      then Responded \<lparr>status = 401, body = JObj [(''ok'', JBool False),
              (''message'', JStr ''Invalid credentials.'')]\<rparr>
      else Responded \<lparr>status = 200, body = JObj [(''ok'', JBool True)]\<rparr>)"
  unfolding login_def submitted_def respondError_def res_json_def Let_def
  by simp

lemma truthy_Some: "truthy x \<Longrightarrow> \<exists>v. x = Some v"
  by (cases x) simp_all

lemma or_default_absent_or_truthy:
  "x = None \<or> truthy x \<Longrightarrow> or_default x dflt = spec_default x dflt"
  by (cases x) auto

lemma brake_pad_summary:
  "partsSummary f [JObj [(''name'', JStr ''Brake Pad''), (''qty'', JNum 2), (''amount'', JNum 500)]]
     = Inr ''Brake Pad | Qty: 2 | Amount: 500''"
  by (simp add: partsSummary_def partSummary_def numberToString_examples)

lemma oil_summary:
  "partsSummary f [JObj [(''name'', JStr ''Oil''), (''qty'', JNum 0), (''amount'', JNum 5)]]
     = Inr ''Oil | Qty: 1 | Amount: 5''"
  by (simp add: partsSummary_def partSummary_def numberToString_examples)

section \<open>Facts about the example inputs\<close>

lemma ex_appointment_fields:
  "submitted ''name'' ex_appointment = Some (JStr ''Asha'')"
  "submitted ''phone'' ex_appointment = Some (JStr ''9876543210'')"
  "submitted ''address'' ex_appointment = Some (JStr ''12 Main Road'')"
  "submitted ''vehicle'' ex_appointment = Some (JStr ''Swift'')"
  "submitted ''issue'' ex_appointment = Some (JStr ''Brake noise'')"
  by (simp_all add: submitted_def ex_appointment_def)

lemma ex_spares_fields:
  "submitted ''name'' ex_spares = Some (JStr ''Ravi'')"
  "submitted ''phone'' ex_spares = Some (JStr ''9876543210'')"
  "submitted ''address'' ex_spares = Some (JStr ''4 Lake Road'')"
  "submitted ''parts'' ex_spares = Some (JArr [JObj [(''name'', JStr ''Brake Pad''),
      (''qty'', JNum 2), (''amount'', JNum 500)]])"
  "submitted ''total'' ex_spares = Some (JNum 1000)"
  by (simp_all add: submitted_def ex_spares_def)

lemma ex_spares_zero_qty_fields:
  "submitted ''name'' ex_spares_zero_qty = Some (JStr ''Ravi'')"
  "submitted ''phone'' ex_spares_zero_qty = Some (JStr ''9876543210'')"
  "submitted ''address'' ex_spares_zero_qty = Some (JStr ''4 Lake Road'')"
  "submitted ''parts'' ex_spares_zero_qty = Some (JArr [JObj [(''name'', JStr ''Oil''),
      (''qty'', JNum 0), (''amount'', JNum 5)]])"
  "submitted ''total'' ex_spares_zero_qty = Some (JNum 5)"
  by (simp_all add: submitted_def ex_spares_zero_qty_def)

lemma ex_contact_fields:
  "submitted ''name'' ex_contact = Some (JStr ''Asha'')"
  "submitted ''phone'' ex_contact = Some (JStr ''9876543210'')"
  "submitted ''message'' ex_contact = Some (JStr ''Please call back'')"
  by (simp_all add: submitted_def ex_contact_def)

lemma ex_feedback_fields:
  "submitted ''name'' (ex_feedback r) = Some (JStr ''Asha'')"
  "submitted ''message'' (ex_feedback r) = Some (JStr ''Quick service'')"
  "submitted ''rating'' (ex_feedback r) = Some r"
  by (simp_all add: submitted_def ex_feedback_def)

lemma store_seq_no_files: "store_seq no_files key = Some []"
  by (simp add: store_seq_iff no_files_def)

lemma truthy_examples:
  "truthy (Some (JStr ''Asha''))" "truthy (Some (JStr ''Quick service''))"
  "truthy (Some (JStr ''9876543210''))" "truthy (Some (JStr ''12 Main Road''))"
  "truthy (Some (JStr ''Swift''))" "truthy (Some (JStr ''Brake noise''))"
  "truthy (Some (JStr ''Ravi''))" "truthy (Some (JStr ''4 Lake Road''))"
  "truthy (Some (JStr ''Please call back''))"
  by simp_all

lemma ex_sms_client:
  "getTwilioClient no_provider ex_sms_env = Inr (Some (''AC0001'', ''secret''))"
  "ex_sms_env ''TWILIO_PHONE'' = Some ''+15005550006''"
  "ex_sms_env ''DEFAULT_COUNTRY_CODE'' = None"
  by (simp_all add: getTwilioClient_def ex_sms_env_def no_provider_def)

lemma ex_appointment_outcome:
  "outcome (post_appointments ex_runtime no_files ex_appointment) =
     Responded \<lparr>status = 200, body = JObj [(''ok'', JBool True),
       (''record'', JObj [(''id'', JStr ''7d9f0c1e''), (''type'', JStr ''Appointment''),
          (''name'', JStr ''Asha''), (''phone'', JStr ''9876543210''),
          (''address'', JStr ''12 Main Road''),
          (''details'', JStr ''Vehicle: Swift | Issue: Brake noise''),
          (''createdAt'', JStr ''2024-05-01T10:00:00.000Z'')])]\<rparr>"
proof -
  have c: "toString (rt_fmt ex_runtime) (JStr ''Swift'') = Inr ''Swift''"
    "toString (rt_fmt ex_runtime) (JStr ''Brake noise'') = Inr ''Brake noise''"
    by simp_all
  show ?thesis
    using appointment_response(1) [OF ex_appointment_fields(1) truthy_examples(1)
      ex_appointment_fields(2) truthy_examples(3) ex_appointment_fields(3) truthy_examples(4)
      ex_appointment_fields(4) truthy_examples(5) ex_appointment_fields(5) truthy_examples(6)
      c store_seq_no_files [of appointments] store_seq_no_files [of customerRecords]]
    by (simp add: ex_runtime_def)
qed

lemma ex_spares_outcome:
  "outcome (post_spares ex_runtime no_files ex_spares) =
     Responded \<lparr>status = 200, body = JObj [(''ok'', JBool True),
       (''record'', JObj [(''id'', JStr ''7d9f0c1e''), (''type'', JStr ''Spare Parts''),
          (''name'', JStr ''Ravi''), (''phone'', JStr ''9876543210''),
          (''address'', JStr ''4 Lake Road''),
          (''details'', JStr ''Brake Pad | Qty: 2 | Amount: 500 | Total: 1000''),
          (''createdAt'', JStr ''2024-05-01T10:00:00.000Z'')])]\<rparr>"
proof -
  have e: "[JObj [(''name'', JStr ''Brake Pad''), (''qty'', JNum 2), (''amount'', JNum 500)]] \<noteq> []"
    by simp
  have tt: "toString (rt_fmt ex_runtime)
              (or_default (submitted ''total'' ex_spares) (JStr ''0'')) = Inr ''1000''"
    by (simp add: ex_spares_fields(5) numberToString_examples)
  show ?thesis
    using spares_response(1) [OF ex_spares_fields(1) truthy_examples(7)
      ex_spares_fields(2) truthy_examples(3) ex_spares_fields(3)
      truthy_examples(8) ex_spares_fields(4) e brake_pad_summary tt
      store_seq_no_files [of spares] store_seq_no_files [of customerRecords]]
    by (simp add: ex_runtime_def)
qed

lemma ex_contact_outcome:
  "outcome (post_contact ex_runtime no_files ex_contact) =
     Responded \<lparr>status = 200, body = JObj [(''ok'', JBool True)]\<rparr>"
  using contact_response [OF ex_contact_fields(1) truthy_examples(1)
      ex_contact_fields(2) truthy_examples(3) ex_contact_fields(3) truthy_examples(9)
      store_seq_no_files [of contacts], of ex_runtime]
  by simp

lemma ex_spares_zero_qty_outcome:
  "outcome (post_spares ex_runtime no_files ex_spares_zero_qty) =
     Responded \<lparr>status = 200, body = JObj [(''ok'', JBool True),
       (''record'', JObj [(''id'', JStr ''7d9f0c1e''), (''type'', JStr ''Spare Parts''),
          (''name'', JStr ''Ravi''), (''phone'', JStr ''9876543210''),
          (''address'', JStr ''4 Lake Road''),
          (''details'', JStr ''Oil | Qty: 1 | Amount: 5 | Total: 5''),
          (''createdAt'', JStr ''2024-05-01T10:00:00.000Z'')])]\<rparr>"
proof -
  have e: "[JObj [(''name'', JStr ''Oil''), (''qty'', JNum 0), (''amount'', JNum 5)]] \<noteq> []"
    by simp
  have tt: "toString (rt_fmt ex_runtime)
              (or_default (submitted ''total'' ex_spares_zero_qty) (JStr ''0'')) = Inr ''5''"
    by (simp add: ex_spares_zero_qty_fields(5) numberToString_examples)
  show ?thesis
    using spares_response(1) [OF ex_spares_zero_qty_fields(1) truthy_examples(7)
      ex_spares_zero_qty_fields(2) truthy_examples(3) ex_spares_zero_qty_fields(3)
      truthy_examples(8) ex_spares_zero_qty_fields(4) e oil_summary tt
      store_seq_no_files [of spares] store_seq_no_files [of customerRecords]]
    by (simp add: ex_runtime_def)
qed

section \<open>Responses to accepted submissions\<close>

text \<open>
  Claim C1, as amended. An accepted appointment or spare-parts submission is answered with
  status 200 and \<^verbatim>\<open>{ok: true, record}\<close>, where the record is the customer-record projection:
  identifier, type, name, phone, address, details and creation time. It has no
  \<^verbatim>\<open>vehicle\<close> or \<^verbatim>\<open>issue\<close> field, and no \<^verbatim>\<open>parts\<close> or \<^verbatim>\<open>total\<close> field; those are kept only
  by the entry appended to the appointments or spares store. An accepted contact submission
  is answered with status 200 and \<^verbatim>\<open>{ok: true}\<close>, without a record; the record goes to the
  contacts store. (Accepted: the fields pass validation, the texts of the details are built
  without a throw, and the stores written to load as sequences.)
\<close>

theorem accepted_submission_response:
  "(submitted ''name'' reqBody = Some n \<and> truthy (Some n)
      \<and> submitted ''phone'' reqBody = Some p \<and> truthy (Some p)
      \<and> submitted ''address'' reqBody = Some a \<and> truthy (Some a)
      \<and> submitted ''vehicle'' reqBody = Some v \<and> truthy (Some v)
      \<and> submitted ''issue'' reqBody = Some i \<and> truthy (Some i)
      \<and> toString (rt_fmt rt) v = Inr vehicleText \<and> toString (rt_fmt rt) i = Inr issueText
      \<and> store_seq d appointments = Some apps \<and> store_seq d customerRecords = Some custs \<longrightarrow>
      outcome (post_appointments rt d reqBody) =
        Responded \<lparr>status = 200, body = JObj [(''ok'', JBool True),
          (''record'', JObj [(''id'', JStr (rt_uuid rt)), (''type'', JStr ''Appointment''),
             (''name'', n), (''phone'', p), (''address'', a),
             (''details'', JStr (''Vehicle: '' @ vehicleText @ '' | Issue: '' @ issueText)),
             (''createdAt'', JStr (rt_now rt))])]\<rparr>
      \<and> record_field ''vehicle'' (outcome (post_appointments rt d reqBody)) = None
      \<and> record_field ''issue'' (outcome (post_appointments rt d reqBody)) = None
      \<and> store_seq (files (post_appointments rt d reqBody)) appointments = Some (apps @
          [JObj [(''id'', JStr (rt_uuid rt)), (''type'', JStr ''Appointment''),
             (''name'', n), (''phone'', p), (''address'', a),
             (''details'', JStr (''Vehicle: '' @ vehicleText @ '' | Issue: '' @ issueText)),
             (''createdAt'', JStr (rt_now rt)), (''vehicle'', v), (''issue'', i)]]))
   \<and> (submitted ''name'' reqBody = Some n \<and> truthy (Some n)
      \<and> submitted ''phone'' reqBody = Some p \<and> truthy (Some p)
      \<and> submitted ''address'' reqBody = Some a \<and> truthy (Some a)
      \<and> submitted ''parts'' reqBody = Some (JArr ps) \<and> ps \<noteq> []
      \<and> partsSummary (rt_fmt rt) ps = Inr summary
      \<and> toString (rt_fmt rt) (or_default (submitted ''total'' reqBody) (JStr ''0''))
           = Inr totalText
      \<and> store_seq d spares = Some sps \<and> store_seq d customerRecords = Some custs \<longrightarrow>
      outcome (post_spares rt d reqBody) =
        Responded \<lparr>status = 200, body = JObj [(''ok'', JBool True),
          (''record'', JObj [(''id'', JStr (rt_uuid rt)), (''type'', JStr ''Spare Parts''),
             (''name'', n), (''phone'', p), (''address'', a),
             (''details'', JStr (summary @ '' | Total: '' @ totalText)),
             (''createdAt'', JStr (rt_now rt))])]\<rparr>
      \<and> record_field ''parts'' (outcome (post_spares rt d reqBody)) = None
      \<and> record_field ''total'' (outcome (post_spares rt d reqBody)) = None
      \<and> store_seq (files (post_spares rt d reqBody)) spares = Some (sps @
          [JObj ([(''id'', JStr (rt_uuid rt)), (''type'', JStr ''Spare Parts''),
             (''name'', n), (''phone'', p), (''address'', a),
             (''details'', JStr (summary @ '' | Total: '' @ totalText)),
             (''createdAt'', JStr (rt_now rt)), (''parts'', JArr ps)]
             @ mk_obj [(''total'', submitted ''total'' reqBody)])]))
   \<and> (submitted ''name'' reqBody = Some n \<and> truthy (Some n)
      \<and> submitted ''phone'' reqBody = Some p \<and> truthy (Some p)
      \<and> submitted ''message'' reqBody = Some m \<and> truthy (Some m)
      \<and> store_seq d contacts = Some msgs \<longrightarrow>
      outcome (post_contact rt d reqBody) =
        Responded \<lparr>status = 200, body = JObj [(''ok'', JBool True)]\<rparr>
      \<and> store_seq (files (post_contact rt d reqBody)) contacts = Some (msgs @
          [JObj [(''id'', JStr (rt_uuid rt)), (''name'', n), (''phone'', p), (''message'', m),
                 (''createdAt'', JStr (rt_now rt))]]))"
proof (intro conjI impI)
  assume h: "submitted ''name'' reqBody = Some n \<and> truthy (Some n)
      \<and> submitted ''phone'' reqBody = Some p \<and> truthy (Some p)
      \<and> submitted ''address'' reqBody = Some a \<and> truthy (Some a)
      \<and> submitted ''vehicle'' reqBody = Some v \<and> truthy (Some v)
      \<and> submitted ''issue'' reqBody = Some i \<and> truthy (Some i)
      \<and> toString (rt_fmt rt) v = Inr vehicleText \<and> toString (rt_fmt rt) i = Inr issueText
      \<and> store_seq d appointments = Some apps \<and> store_seq d customerRecords = Some custs"
  then have r: "outcome (post_appointments rt d reqBody) =
        Responded \<lparr>status = 200, body = JObj [(''ok'', JBool True),
          (''record'', JObj [(''id'', JStr (rt_uuid rt)), (''type'', JStr ''Appointment''),
             (''name'', n), (''phone'', p), (''address'', a),
             (''details'', JStr (''Vehicle: '' @ vehicleText @ '' | Issue: '' @ issueText)),
             (''createdAt'', JStr (rt_now rt))])]\<rparr>"
    by (intro appointment_response(1) [where v = v and i = i]) simp_all
  show "outcome (post_appointments rt d reqBody) =
        Responded \<lparr>status = 200, body = JObj [(''ok'', JBool True),
          (''record'', JObj [(''id'', JStr (rt_uuid rt)), (''type'', JStr ''Appointment''),
             (''name'', n), (''phone'', p), (''address'', a),
             (''details'', JStr (''Vehicle: '' @ vehicleText @ '' | Issue: '' @ issueText)),
             (''createdAt'', JStr (rt_now rt))])]\<rparr>"
    by (rule r)
  show "record_field ''vehicle'' (outcome (post_appointments rt d reqBody)) = None"
    unfolding r by simp
  show "record_field ''issue'' (outcome (post_appointments rt d reqBody)) = None"
    unfolding r by simp
  from h have "files (post_appointments rt d reqBody) =
          d(STORE_FILES appointments := Parsed (JArr (apps @
              [JObj [(''id'', JStr (rt_uuid rt)), (''type'', JStr ''Appointment''),
                 (''name'', n), (''phone'', p), (''address'', a),
                 (''details'', JStr (''Vehicle: '' @ vehicleText @ '' | Issue: '' @ issueText)),
                 (''createdAt'', JStr (rt_now rt)), (''vehicle'', v), (''issue'', i)]])),
            STORE_FILES customerRecords := Parsed (JArr (custs @
              [JObj [(''id'', JStr (rt_uuid rt)), (''type'', JStr ''Appointment''),
                 (''name'', n), (''phone'', p), (''address'', a),
                 (''details'', JStr (''Vehicle: '' @ vehicleText @ '' | Issue: '' @ issueText)),
                 (''createdAt'', JStr (rt_now rt))]])))"
    by (intro appointment_response(2)) simp_all
  then show "store_seq (files (post_appointments rt d reqBody)) appointments = Some (apps @
          [JObj [(''id'', JStr (rt_uuid rt)), (''type'', JStr ''Appointment''),
             (''name'', n), (''phone'', p), (''address'', a),
             (''details'', JStr (''Vehicle: '' @ vehicleText @ '' | Issue: '' @ issueText)),
             (''createdAt'', JStr (rt_now rt)), (''vehicle'', v), (''issue'', i)]])"
    by (simp add: store_seq_upd)
next
  assume h: "submitted ''name'' reqBody = Some n \<and> truthy (Some n)
      \<and> submitted ''phone'' reqBody = Some p \<and> truthy (Some p)
      \<and> submitted ''address'' reqBody = Some a \<and> truthy (Some a)
      \<and> submitted ''parts'' reqBody = Some (JArr ps) \<and> ps \<noteq> []
      \<and> partsSummary (rt_fmt rt) ps = Inr summary
      \<and> toString (rt_fmt rt) (or_default (submitted ''total'' reqBody) (JStr ''0''))
           = Inr totalText
      \<and> store_seq d spares = Some sps \<and> store_seq d customerRecords = Some custs"
  then have r: "outcome (post_spares rt d reqBody) =
        Responded \<lparr>status = 200, body = JObj [(''ok'', JBool True),
          (''record'', JObj [(''id'', JStr (rt_uuid rt)), (''type'', JStr ''Spare Parts''),
             (''name'', n), (''phone'', p), (''address'', a),
             (''details'', JStr (summary @ '' | Total: '' @ totalText)),
             (''createdAt'', JStr (rt_now rt))])]\<rparr>"
    by (intro spares_response(1) [where ps = ps and sps = sps and custs = custs]) simp_all
  show "outcome (post_spares rt d reqBody) =
        Responded \<lparr>status = 200, body = JObj [(''ok'', JBool True),
          (''record'', JObj [(''id'', JStr (rt_uuid rt)), (''type'', JStr ''Spare Parts''),
             (''name'', n), (''phone'', p), (''address'', a),
             (''details'', JStr (summary @ '' | Total: '' @ totalText)),
             (''createdAt'', JStr (rt_now rt))])]\<rparr>"
    by (rule r)
  show "record_field ''parts'' (outcome (post_spares rt d reqBody)) = None"
    unfolding r by simp
  show "record_field ''total'' (outcome (post_spares rt d reqBody)) = None"
    unfolding r by simp
  from h have "files (post_spares rt d reqBody) =
          d(STORE_FILES spares := Parsed (JArr (sps @
              [JObj ([(''id'', JStr (rt_uuid rt)), (''type'', JStr ''Spare Parts''),
                 (''name'', n), (''phone'', p), (''address'', a),
                 (''details'', JStr (summary @ '' | Total: '' @ totalText)),
                 (''createdAt'', JStr (rt_now rt)), (''parts'', JArr ps)]
                 @ mk_obj [(''total'', submitted ''total'' reqBody)])])),
            STORE_FILES customerRecords := Parsed (JArr (custs @
              [JObj [(''id'', JStr (rt_uuid rt)), (''type'', JStr ''Spare Parts''),
                 (''name'', n), (''phone'', p), (''address'', a),
                 (''details'', JStr (summary @ '' | Total: '' @ totalText)),
                 (''createdAt'', JStr (rt_now rt))]])))"
    by (intro spares_response(2)) simp_all
  then show "store_seq (files (post_spares rt d reqBody)) spares = Some (sps @
          [JObj ([(''id'', JStr (rt_uuid rt)), (''type'', JStr ''Spare Parts''),
             (''name'', n), (''phone'', p), (''address'', a),
             (''details'', JStr (summary @ '' | Total: '' @ totalText)),
             (''createdAt'', JStr (rt_now rt)), (''parts'', JArr ps)]
             @ mk_obj [(''total'', submitted ''total'' reqBody)])])"
    by (simp add: store_seq_upd)
next
  assume h: "submitted ''name'' reqBody = Some n \<and> truthy (Some n)
      \<and> submitted ''phone'' reqBody = Some p \<and> truthy (Some p)
      \<and> submitted ''message'' reqBody = Some m \<and> truthy (Some m)
      \<and> store_seq d contacts = Some msgs"
  then have r: "post_contact rt d reqBody =
     \<lparr>files = d(STORE_FILES contacts := Parsed (JArr (msgs @
         [JObj [(''id'', JStr (rt_uuid rt)), (''name'', n), (''phone'', p), (''message'', m),
                (''createdAt'', JStr (rt_now rt))]]))),
      notified = [],
      outcome = Responded \<lparr>status = 200, body = JObj [(''ok'', JBool True)]\<rparr>\<rparr>"
    by (intro contact_response) simp_all
  show "outcome (post_contact rt d reqBody) =
        Responded \<lparr>status = 200, body = JObj [(''ok'', JBool True)]\<rparr>"
    unfolding r by simp
  show "store_seq (files (post_contact rt d reqBody)) contacts = Some (msgs @
          [JObj [(''id'', JStr (rt_uuid rt)), (''name'', n), (''phone'', p), (''message'', m),
                 (''createdAt'', JStr (rt_now rt))]])"
    unfolding r by (simp add: store_seq_upd)
qed

text \<open>
  The claim as stated fails: the response to an accepted appointment has neither the
  submitted vehicle nor the issue as a field, the response to an accepted spare-parts
  request has neither parts nor total, and the response to an accepted contact message has
  no record at all.
\<close>

theorem response_echoes_all_counterexample:
  "status_of (outcome (post_appointments ex_runtime no_files ex_appointment)) = Some 200
   \<and> submitted ''vehicle'' ex_appointment = Some (JStr ''Swift'')
   \<and> record_field ''vehicle'' (outcome (post_appointments ex_runtime no_files ex_appointment)) = None
   \<and> submitted ''issue'' ex_appointment = Some (JStr ''Brake noise'')
   \<and> record_field ''issue'' (outcome (post_appointments ex_runtime no_files ex_appointment)) = None
   \<and> status_of (outcome (post_spares ex_runtime no_files ex_spares)) = Some 200
   \<and> submitted ''total'' ex_spares = Some (JNum 1000)
   \<and> record_field ''parts'' (outcome (post_spares ex_runtime no_files ex_spares)) = None
   \<and> record_field ''total'' (outcome (post_spares ex_runtime no_files ex_spares)) = None
   \<and> outcome (post_contact ex_runtime no_files ex_contact)
       = Responded \<lparr>status = 200, body = JObj [(''ok'', JBool True)]\<rparr>
   \<and> js_get ''record'' (JObj [(''ok'', JBool True)]) = None"
  by (simp add: ex_appointment_outcome ex_spares_outcome ex_contact_outcome
        ex_appointment_fields ex_spares_fields)

text \<open>The amended statement on the three example submissions, on a disk with no store yet.\<close>

theorem accepted_submission_response_witness:
  "outcome (post_appointments ex_runtime no_files ex_appointment) =
     Responded \<lparr>status = 200, body = JObj [(''ok'', JBool True),
       (''record'', JObj [(''id'', JStr ''7d9f0c1e''), (''type'', JStr ''Appointment''),
          (''name'', JStr ''Asha''), (''phone'', JStr ''9876543210''),
          (''address'', JStr ''12 Main Road''),
          (''details'', JStr ''Vehicle: Swift | Issue: Brake noise''),
          (''createdAt'', JStr ''2024-05-01T10:00:00.000Z'')])]\<rparr>
   \<and> store_seq (files (post_appointments ex_runtime no_files ex_appointment)) appointments =
       Some [JObj [(''id'', JStr ''7d9f0c1e''), (''type'', JStr ''Appointment''),
          (''name'', JStr ''Asha''), (''phone'', JStr ''9876543210''),
          (''address'', JStr ''12 Main Road''),
          (''details'', JStr ''Vehicle: Swift | Issue: Brake noise''),
          (''createdAt'', JStr ''2024-05-01T10:00:00.000Z''),
          (''vehicle'', JStr ''Swift''), (''issue'', JStr ''Brake noise'')]]
   \<and> record_field ''parts'' (outcome (post_spares ex_runtime no_files ex_spares)) = None
   \<and> store_seq (files (post_spares ex_runtime no_files ex_spares)) spares =
       Some [JObj [(''id'', JStr ''7d9f0c1e''), (''type'', JStr ''Spare Parts''),
          (''name'', JStr ''Ravi''), (''phone'', JStr ''9876543210''),
          (''address'', JStr ''4 Lake Road''),
          (''details'', JStr ''Brake Pad | Qty: 2 | Amount: 500 | Total: 1000''),
          (''createdAt'', JStr ''2024-05-01T10:00:00.000Z''),
          (''parts'', JArr [JObj [(''name'', JStr ''Brake Pad''), (''qty'', JNum 2),
                                  (''amount'', JNum 500)]]),
          (''total'', JNum 1000)]]
   \<and> outcome (post_contact ex_runtime no_files ex_contact) =
        Responded \<lparr>status = 200, body = JObj [(''ok'', JBool True)]\<rparr>
   \<and> store_seq (files (post_contact ex_runtime no_files ex_contact)) contacts =
       Some [JObj [(''id'', JStr ''7d9f0c1e''), (''name'', JStr ''Asha''),
          (''phone'', JStr ''9876543210''), (''message'', JStr ''Please call back''),
          (''createdAt'', JStr ''2024-05-01T10:00:00.000Z'')]]"
  using accepted_submission_response [where reqBody = ex_appointment and n = "JStr ''Asha''"
          and p = "JStr ''9876543210''" and a = "JStr ''12 Main Road''"
          and v = "JStr ''Swift''" and i = "JStr ''Brake noise''" and d = no_files
          and apps = "[]" and custs = "[]" and rt = ex_runtime
          and vehicleText = "''Swift''" and issueText = "''Brake noise''"]
    accepted_submission_response [where reqBody = ex_spares and n = "JStr ''Ravi''"
          and p = "JStr ''9876543210''" and a = "JStr ''4 Lake Road''" and d = no_files
          and rt = ex_runtime and sps = "[]" and custs = "[]"
          and ps = "[JObj [(''name'', JStr ''Brake Pad''), (''qty'', JNum 2),
                           (''amount'', JNum 500)]]"
          and summary = "''Brake Pad | Qty: 2 | Amount: 500''" and totalText = "''1000''"]
    accepted_submission_response [where reqBody = ex_contact and n = "JStr ''Asha''"
          and p = "JStr ''9876543210''" and m = "JStr ''Please call back''" and d = no_files
          and rt = ex_runtime and msgs = "[]"]
  by (simp add: ex_appointment_fields ex_spares_fields ex_contact_fields store_seq_no_files
        ex_runtime_def brake_pad_summary numberToString_examples)

section \<open>Deleting a customer record\<close>

text \<open>
  Claim C2, as amended. On a customer-records store that loads as a sequence of records:
  if some record has the identifier, the deletion removes every record whose identifier
  matches, keeps all the others in their order, saves that sequence and answers 200; when
  exactly one record matches, this is the removal of the first match. If no record matches,
  nothing is saved, the store holds the same sequence (a missing backing file is created
  empty by the load) and the answer is 404.
\<close>

theorem delete_removes_matching:
  assumes "store_seq d customerRecords = Some records" and "JNull \<notin> set records"
  shows "((\<exists>r\<in>set records. js_get ''id'' r = Some (JStr ident)) \<longrightarrow>
            delete_customer_record d ident =
              \<lparr>files = d(STORE_FILES customerRecords :=
                   Parsed (JArr (filter (\<lambda>r. js_get ''id'' r \<noteq> Some (JStr ident)) records))),
               notified = [],
               outcome = Responded \<lparr>status = 200, body = JObj [(''ok'', JBool True)]\<rparr>\<rparr>)
       \<and> (length (filter (\<lambda>r. js_get ''id'' r = Some (JStr ident)) records) = 1 \<longrightarrow>
            filter (\<lambda>r. js_get ''id'' r \<noteq> Some (JStr ident)) records
              = spec_remove_first ident records)
       \<and> ((\<forall>r\<in>set records. js_get ''id'' r \<noteq> Some (JStr ident)) \<longrightarrow>
            delete_customer_record d ident =
              \<lparr>files = (if d (STORE_FILES customerRecords) = ReadError ''ENOENT''
                        then d(STORE_FILES customerRecords := Parsed (JArr [])) else d),
               notified = [],
               outcome = Responded \<lparr>status = 404, body = JObj [(''ok'', JBool False),
                  (''message'', JStr ''Record not found.'')]\<rparr>\<rparr>
            \<and> store_seq (files (delete_customer_record d ident)) customerRecords
                = Some records)"
proof (intro conjI impI)
  assume m: "\<exists>r\<in>set records. js_get ''id'' r = Some (JStr ident)"
  then have ne: "length (filter (keeps ident) records) \<noteq> length records"
    by (simp add: no_match_iff)
  from m have "records \<noteq> []" by auto
  with assms(1) have "d (STORE_FILES customerRecords) = Parsed (JArr records)"
    by (auto simp: store_seq_iff)
  then have l: "loadStore d customerRecords = (d, Inr (JArr records))"
    by (simp add: loadStore_def readJson_def)
  show "delete_customer_record d ident =
              \<lparr>files = d(STORE_FILES customerRecords :=
                   Parsed (JArr (filter (\<lambda>r. js_get ''id'' r \<noteq> Some (JStr ident)) records))),
               notified = [],
               outcome = Responded \<lparr>status = 200, body = JObj [(''ok'', JBool True)]\<rparr>\<rparr>"
    using ne assms(2)
    by (simp add: delete_customer_record_def l Let_def saveStore_def writeJson_def
          res_json_def keeps_eq del: STORE_FILES.simps)
next
  assume "length (filter (\<lambda>r. js_get ''id'' r = Some (JStr ident)) records) = 1"
  then show "filter (\<lambda>r. js_get ''id'' r \<noteq> Some (JStr ident)) records
              = spec_remove_first ident records"
    using remove_first_is_filter [of ident records] by (simp add: keeps_eq)
next
  assume n: "\<forall>r\<in>set records. js_get ''id'' r \<noteq> Some (JStr ident)"
  then have eq: "length (filter (keeps ident) records) = length records"
    by (simp add: no_match_iff)
  have r: "delete_customer_record d ident =
              \<lparr>files = (if d (STORE_FILES customerRecords) = ReadError ''ENOENT''
                        then d(STORE_FILES customerRecords := Parsed (JArr [])) else d),
               notified = [],
               outcome = Responded \<lparr>status = 404, body = JObj [(''ok'', JBool False),
                  (''message'', JStr ''Record not found.'')]\<rparr>\<rparr>"
    using eq assms(2)
    by (simp add: delete_customer_record_def loadStore_eq [OF assms(1)] Let_def
          respondError_def del: STORE_FILES.simps)
  note r404 = r
  show "delete_customer_record d ident =
              \<lparr>files = (if d (STORE_FILES customerRecords) = ReadError ''ENOENT''
                        then d(STORE_FILES customerRecords := Parsed (JArr [])) else d),
               notified = [],
               outcome = Responded \<lparr>status = 404, body = JObj [(''ok'', JBool False),
                  (''message'', JStr ''Record not found.'')]\<rparr>\<rparr>"
    by (rule r)
  show "store_seq (files (delete_customer_record d ident)) customerRecords = Some records"
    using loadStore_seq(2,3) [OF assms(1)] unfolding r by simp
qed

text \<open>
  The claim as stated fails on a store where two records share the identifier: both are
  removed, not only the first.
\<close>

theorem delete_first_only_counterexample:
  "files (delete_customer_record (no_files(STORE_FILES customerRecords := Parsed (JArr ex_dup_records))) ''a'')
      (STORE_FILES customerRecords)
     = Parsed (JArr [JObj [(''id'', JStr ''b''), (''name'', JStr ''other'')]])
   \<and> spec_remove_first ''a'' ex_dup_records
     = [JObj [(''id'', JStr ''b''), (''name'', JStr ''other'')],
        JObj [(''id'', JStr ''a''), (''name'', JStr ''second'')]]
   \<and> files (delete_customer_record (no_files(STORE_FILES customerRecords := Parsed (JArr ex_dup_records))) ''a'')
      (STORE_FILES customerRecords)
     \<noteq> Parsed (JArr (spec_remove_first ''a'' ex_dup_records))"
  by (simp add: delete_customer_record_def loadStore_def readJson_def saveStore_def
        writeJson_def keeps_eq ex_dup_records_def Let_def)

text \<open>
  The amended statement on a store of three records: deleting \<open>b\<close> keeps the two others,
  deleting an identifier that is not there answers 404 and leaves the file as it is.
\<close>

theorem delete_removes_matching_witness:
  "delete_customer_record (no_files(STORE_FILES customerRecords := Parsed (JArr ex_dup_records))) ''b''
     = \<lparr>files = no_files(STORE_FILES customerRecords := Parsed (JArr
          [JObj [(''id'', JStr ''a''), (''name'', JStr ''first'')],
           JObj [(''id'', JStr ''a''), (''name'', JStr ''second'')]])),
        notified = [],
        outcome = Responded \<lparr>status = 200, body = JObj [(''ok'', JBool True)]\<rparr>\<rparr>
   \<and> spec_remove_first ''b'' ex_dup_records
       = [JObj [(''id'', JStr ''a''), (''name'', JStr ''first'')],
          JObj [(''id'', JStr ''a''), (''name'', JStr ''second'')]]
   \<and> delete_customer_record (no_files(STORE_FILES customerRecords := Parsed (JArr ex_dup_records))) ''zz''
     = \<lparr>files = no_files(STORE_FILES customerRecords := Parsed (JArr ex_dup_records)),
        notified = [],
        outcome = Responded \<lparr>status = 404, body = JObj [(''ok'', JBool False),
                  (''message'', JStr ''Record not found.'')]\<rparr>\<rparr>"
proof -
  let ?d = "no_files(STORE_FILES customerRecords := Parsed (JArr ex_dup_records))"
  have s: "store_seq ?d customerRecords = Some ex_dup_records"
    by (simp add: store_seq_upd)
  have n: "JNull \<notin> set ex_dup_records"
    by (simp add: ex_dup_records_def)
  from delete_removes_matching [OF s n, of "''b''"] delete_removes_matching [OF s n, of "''zz''"]
  show ?thesis
    by (simp add: ex_dup_records_def)
qed

section \<open>Appointments grow both stores\<close>

text \<open>
  Where vehicle and issue are values a template literal can print and both stores load as
  sequences, a valid appointment submission makes the appointments store and the
  customer-records store each grow by exactly one entry, appended at the end, and the two
  new entries carry the identifier generated for this request.
\<close>

lemma appointment_grows_both_stores:
  assumes "truthy (submitted ''name'' reqBody)" and "truthy (submitted ''phone'' reqBody)"
    and "truthy (submitted ''address'' reqBody)" and "truthy (submitted ''vehicle'' reqBody)"
    and "truthy (submitted ''issue'' reqBody)"
    and "tpl (rt_fmt rt) (submitted ''vehicle'' reqBody) = Inr vehicleText"
    and "tpl (rt_fmt rt) (submitted ''issue'' reqBody) = Inr issueText"
    and "store_seq d appointments = Some apps"
    and "store_seq d customerRecords = Some custs"
  shows "\<exists>ra rc.
      store_seq (files (post_appointments rt d reqBody)) appointments = Some (apps @ [ra])
    \<and> store_seq (files (post_appointments rt d reqBody)) customerRecords = Some (custs @ [rc])
    \<and> js_get ''id'' ra = Some (JStr (rt_uuid rt))
    \<and> js_get ''id'' rc = Some (JStr (rt_uuid rt))"
proof -
  from assms(1-5) obtain n p a v i where f:
    "submitted ''name'' reqBody = Some n" "submitted ''phone'' reqBody = Some p"
    "submitted ''address'' reqBody = Some a" "submitted ''vehicle'' reqBody = Some v"
    "submitted ''issue'' reqBody = Some i"
    by (meson truthy_Some)
  have t: "truthy (Some n)" "truthy (Some p)" "truthy (Some a)" "truthy (Some v)"
    "truthy (Some i)"
    using assms(1-5) unfolding f by simp_all
  have c: "toString (rt_fmt rt) v = Inr vehicleText" "toString (rt_fmt rt) i = Inr issueText"
    using assms(6,7) unfolding f by simp_all
  note files = appointment_response(2) [OF f(1) t(1) f(2) t(2) f(3) t(3) f(4) t(4) f(5) t(5)
      c assms(8,9)]
  show ?thesis
    unfolding files by (simp add: store_seq_upd)
qed

text \<open>The example appointment on a disk with no store yet.\<close>

lemma appointment_grows_both_stores_example:
  "\<exists>ra rc.
      store_seq (files (post_appointments ex_runtime no_files ex_appointment)) appointments
        = Some [ra]
    \<and> store_seq (files (post_appointments ex_runtime no_files ex_appointment)) customerRecords
        = Some [rc]
    \<and> js_get ''id'' ra = Some (JStr ''7d9f0c1e'')
    \<and> js_get ''id'' rc = Some (JStr ''7d9f0c1e'')"
  using appointment_grows_both_stores [of ex_appointment ex_runtime "''Swift''"
          "''Brake noise''" no_files "[]" "[]"]
  by (simp add: ex_appointment_fields store_seq_no_files ex_runtime_def)

text \<open>
  Claim C3. For every valid appointment submission (name, phone, address, vehicle and issue
  all present and truthy), the appointments store and the customer-records store each grow
  by exactly one entry, appended at the end, sharing the identifier generated for the
  request. The handler breaks this on the submission whose vehicle is the object
  \<^verbatim>\<open>{"toString": "x"}\<close>: all five fields are truthy, so it passes the validation, and the
  template literal that builds \<^verbatim>\<open>details\<close> then throws a TypeError before the first
  \<^verbatim>\<open>addRecord\<close>. Whatever the disk, it is left as it was and no response is sent.
\<close>

theorem appointment_unprintable_vehicle_throws:
  "truthy (submitted ''name'' ex_appointment_unprintable)
   \<and> truthy (submitted ''phone'' ex_appointment_unprintable)
   \<and> truthy (submitted ''address'' ex_appointment_unprintable)
   \<and> truthy (submitted ''vehicle'' ex_appointment_unprintable)
   \<and> truthy (submitted ''issue'' ex_appointment_unprintable)
   \<and> post_appointments rt d ex_appointment_unprintable
       = \<lparr>files = d, notified = [], outcome = Threw TypeError\<rparr>"
  by (simp add: submitted_def ex_appointment_unprintable_def post_appointments_def Let_def)

text \<open>On a disk with no store yet, both stores are as empty after the request as before.\<close>

theorem appointment_unprintable_vehicle_throws_witness:
  "store_seq no_files appointments = Some []
   \<and> store_seq no_files customerRecords = Some []
   \<and> store_seq (files (post_appointments ex_runtime no_files ex_appointment_unprintable))
         appointments = Some []
   \<and> store_seq (files (post_appointments ex_runtime no_files ex_appointment_unprintable))
         customerRecords = Some []
   \<and> outcome (post_appointments ex_runtime no_files ex_appointment_unprintable)
       = Threw TypeError"
  using appointment_unprintable_vehicle_throws [of ex_runtime no_files]
  by (simp add: store_seq_no_files)

section \<open>Rejected submissions write nothing\<close>

text \<open>
  An appointment, spare-parts or contact request in which a required field is missing or
  fails validation is answered with status 400 and a message, and the disk is the one the
  handler started with. So is a feedback request, provided the coercion of its rating, which
  the handler does first, returns a number \<open>x\<close>.
\<close>

lemma invalid_submission_rejected:
  "((\<not> truthy (submitted ''name'' reqBody) \<or> \<not> truthy (submitted ''phone'' reqBody)
      \<or> \<not> truthy (submitted ''address'' reqBody) \<or> \<not> truthy (submitted ''vehicle'' reqBody)
      \<or> \<not> truthy (submitted ''issue'' reqBody)) \<longrightarrow>
     post_appointments rt d reqBody =
       \<lparr>files = d, notified = [],
        outcome = Responded \<lparr>status = 400, body = JObj [(''ok'', JBool False),
          (''message'', JStr ''All appointment fields are required.'')]\<rparr>\<rparr>)
   \<and> ((\<not> truthy (submitted ''name'' reqBody) \<or> \<not> truthy (submitted ''phone'' reqBody)
      \<or> \<not> truthy (submitted ''address'' reqBody)
      \<or> arrayItems (submitted ''parts'' reqBody) = None
      \<or> arrayItems (submitted ''parts'' reqBody) = Some []) \<longrightarrow>
     post_spares rt d reqBody =
       \<lparr>files = d, notified = [],
        outcome = Responded \<lparr>status = 400, body = JObj [(''ok'', JBool False),
          (''message'', JStr ''Customer details and at least one part are required.'')]\<rparr>\<rparr>)
   \<and> ((\<not> truthy (submitted ''name'' reqBody) \<or> \<not> truthy (submitted ''message'' reqBody)
      \<or> \<not> (\<exists>r. x = Fin r \<and> 0 < r))
      \<and> Number (rt_fmt rt) (rt_rnd rt) (submitted ''rating'' reqBody) = Inr x \<longrightarrow>
     post_feedback rt d reqBody =
       \<lparr>files = d, notified = [],
        outcome = Responded \<lparr>status = 400, body = JObj [(''ok'', JBool False),
          (''message'', JStr ''Name, message, and rating are required.'')]\<rparr>\<rparr>)
   \<and> ((\<not> truthy (submitted ''name'' reqBody) \<or> \<not> truthy (submitted ''phone'' reqBody)
      \<or> \<not> truthy (submitted ''message'' reqBody)) \<longrightarrow>
     post_contact rt d reqBody =
       \<lparr>files = d, notified = [],
        outcome = Responded \<lparr>status = 400, body = JObj [(''ok'', JBool False),
          (''message'', JStr ''All contact fields are required.'')]\<rparr>\<rparr>)"
proof (intro conjI impI)
  assume "\<not> truthy (submitted ''name'' reqBody) \<or> \<not> truthy (submitted ''phone'' reqBody)
      \<or> \<not> truthy (submitted ''address'' reqBody) \<or> \<not> truthy (submitted ''vehicle'' reqBody)
      \<or> \<not> truthy (submitted ''issue'' reqBody)"
  then show "post_appointments rt d reqBody =
       \<lparr>files = d, notified = [],
        outcome = Responded \<lparr>status = 400, body = JObj [(''ok'', JBool False),
          (''message'', JStr ''All appointment fields are required.'')]\<rparr>\<rparr>"
    unfolding post_appointments_def submitted_def respondError_def Let_def
    by (simp only: if_True)
next
  assume "\<not> truthy (submitted ''name'' reqBody) \<or> \<not> truthy (submitted ''phone'' reqBody)
      \<or> \<not> truthy (submitted ''address'' reqBody)
      \<or> arrayItems (submitted ''parts'' reqBody) = None
      \<or> arrayItems (submitted ''parts'' reqBody) = Some []"
  then show "post_spares rt d reqBody =
       \<lparr>files = d, notified = [],
        outcome = Responded \<lparr>status = 400, body = JObj [(''ok'', JBool False),
          (''message'', JStr ''Customer details and at least one part are required.'')]\<rparr>\<rparr>"
    unfolding post_spares_def submitted_def respondError_def Let_def
    by (simp only: if_True)
next
  assume "(\<not> truthy (submitted ''name'' reqBody) \<or> \<not> truthy (submitted ''message'' reqBody)
      \<or> \<not> (\<exists>r. x = Fin r \<and> 0 < r))
      \<and> Number (rt_fmt rt) (rt_rnd rt) (submitted ''rating'' reqBody) = Inr x"
  then show "post_feedback rt d reqBody =
       \<lparr>files = d, notified = [],
        outcome = Responded \<lparr>status = 400, body = JObj [(''ok'', JBool False),
          (''message'', JStr ''Name, message, and rating are required.'')]\<rparr>\<rparr>"
    using post_feedback_rejected [of rt reqBody x d] by blast
next
  assume "\<not> truthy (submitted ''name'' reqBody) \<or> \<not> truthy (submitted ''phone'' reqBody)
      \<or> \<not> truthy (submitted ''message'' reqBody)"
  then show "post_contact rt d reqBody =
       \<lparr>files = d, notified = [],
        outcome = Responded \<lparr>status = 400, body = JObj [(''ok'', JBool False),
          (''message'', JStr ''All contact fields are required.'')]\<rparr>\<rparr>"
    unfolding post_contact_def submitted_def respondError_def Let_def
    by (simp only: if_True)
qed

text \<open>Four requests that fail validation, one per handler.\<close>

lemma invalid_submission_rejected_example:
  "status_of (outcome (post_appointments ex_runtime no_files None)) = Some 400
   \<and> files (post_appointments ex_runtime no_files None) = no_files
   \<and> status_of (outcome (post_spares ex_runtime no_files ex_contact)) = Some 400
   \<and> files (post_spares ex_runtime no_files ex_contact) = no_files
   \<and> status_of (outcome (post_feedback ex_runtime no_files (ex_feedback (JNum 0)))) = Some 400
   \<and> files (post_feedback ex_runtime no_files (ex_feedback (JNum 0))) = no_files
   \<and> status_of (outcome (post_contact ex_runtime no_files ex_appointment)) = Some 400
   \<and> files (post_contact ex_runtime no_files ex_appointment) = no_files"
  using invalid_submission_rejected [where reqBody = None and rt = ex_runtime and d = no_files]
    invalid_submission_rejected [where reqBody = ex_contact and rt = ex_runtime and d = no_files]
    invalid_submission_rejected [where reqBody = "ex_feedback (JNum 0)" and rt = ex_runtime
       and d = no_files and x = "Fin 0"]
    invalid_submission_rejected [where reqBody = ex_appointment and rt = ex_runtime
       and d = no_files]
  by (simp add: submitted_def ex_contact_def ex_feedback_def ex_appointment_def)

text \<open>
  Claim C4. For every appointment, spare-parts, feedback or contact request in which a
  required field is missing or fails validation, the handler answers with status 400 and a
  message, and no store is written. The feedback handler breaks this on the body
  \<^verbatim>\<open>{"rating": {"toString": 1}}\<close>: name and message are missing, but \<^verbatim>\<open>Number(rating)\<close>
  is evaluated before the check and throws a TypeError, so no 400 is sent. The three other
  handlers check before they convert anything.
\<close>

theorem feedback_missing_name_throws:
  "\<not> truthy (submitted ''name'' ex_feedback_rating_only)
   \<and> \<not> truthy (submitted ''message'' ex_feedback_rating_only)
   \<and> post_feedback rt d ex_feedback_rating_only
       = \<lparr>files = d, notified = [], outcome = Threw TypeError\<rparr>
   \<and> status_of (outcome (post_feedback rt d ex_feedback_rating_only)) \<noteq> Some 400"
  by (simp add: submitted_def ex_feedback_rating_only_def post_feedback_def Let_def
        viaString_def)

text \<open>The same request with no variable set and no store yet.\<close>

theorem feedback_missing_name_throws_witness:
  "outcome (post_feedback ex_runtime no_files ex_feedback_rating_only) = Threw TypeError
   \<and> status_of (outcome (post_feedback ex_runtime no_files ex_feedback_rating_only)) = None"
  using feedback_missing_name_throws [of ex_runtime no_files]
  by simp

section \<open>Phone numbers\<close>

text \<open>
  When the provider client and the sender number are configured, \<^verbatim>\<open>sendSms\<close> on a string
  \<open>t\<close> normalises it: if \<open>t\<close> does not start with \<open>+\<close>, every character that is not a
  digit is dropped and the configured country code (\<open>+91\<close> when none is set) is put in
  front; if it starts with \<open>+\<close> it is left as it is. The result is checked against \<open>+\<close>
  followed by 10 to 15 digits: when it does not match, nothing is sent and the call ends
  with a warning and no error; when it matches, the message goes to the provider. With the
  default country code, \<open>9876543210\<close> becomes \<open>+919876543210\<close>, \<open>+14155552671\<close> is unchanged
  and \<open>123\<close> is skipped.
\<close>

lemma sendSms_normalizes:
  assumes "getTwilioClient P ev = Inr (Some client)"
    and "ev ''TWILIO_PHONE'' = Some sender" and "sender \<noteq> []"
  shows "((t = [] \<or> hd t \<noteq> CHR ''+'') \<longrightarrow>
            normalizeTo ev t = env_or (ev ''DEFAULT_COUNTRY_CODE'') ''+91''
                                 @ filter (\<lambda>c. c \<in> set ''0123456789'') t)
       \<and> ((t \<noteq> [] \<and> hd t = CHR ''+'') \<longrightarrow> normalizeTo ev t = t)
       \<and> ((\<exists>ds. normalizeTo ev t = CHR ''+'' # ds \<and> set ds \<subseteq> set ''0123456789''
                \<and> 10 \<le> length ds \<and> length ds \<le> 15) \<longrightarrow>
            sendSms P ev (JStr t) msg =
              (case create P \<lparr>sms_from = sender, sms_to = normalizeTo ev t, sms_body = msg\<rparr> of
                 None \<Rightarrow> Sent \<lparr>sms_from = sender, sms_to = normalizeTo ev t, sms_body = msg\<rparr>
               | Some e \<Rightarrow> Rejected e))
       \<and> (\<not> (\<exists>ds. normalizeTo ev t = CHR ''+'' # ds \<and> set ds \<subseteq> set ''0123456789''
                \<and> 10 \<le> length ds \<and> length ds \<le> 15) \<longrightarrow>
            sendSms P ev (JStr t) msg =
              Skipped (''Invalid phone number '' @ [CHR 0x22] @ normalizeTo ev t @ [CHR 0x22]
                       @ ''. Skipping SMS.''))
       \<and> (ev ''DEFAULT_COUNTRY_CODE'' = None \<longrightarrow>
            normalizeTo ev ''9876543210'' = ''+919876543210''
            \<and> normalizeTo ev ''+14155552671'' = ''+14155552671''
            \<and> sendSms P ev (JStr ''123'') msg =
                Skipped (''Invalid phone number '' @ [CHR 0x22] @ ''+91123'' @ [CHR 0x22]
                         @ ''. Skipping SMS.''))"
proof -
  note s = sendSms_configured [OF assms]
  have a: "(t = [] \<or> hd t \<noteq> CHR ''+'') \<longrightarrow>
            normalizeTo ev t = env_or (ev ''DEFAULT_COUNTRY_CODE'') ''+91''
                                 @ filter (\<lambda>c. c \<in> set ''0123456789'') t"
    using normalizeTo_no_plus [of t ev] by blast
  have b: "(t \<noteq> [] \<and> hd t = CHR ''+'') \<longrightarrow> normalizeTo ev t = t"
    using normalizeTo_plus [of t ev] by blast
  have c: "(\<exists>ds. normalizeTo ev t = CHR ''+'' # ds \<and> set ds \<subseteq> set ''0123456789''
                \<and> 10 \<le> length ds \<and> length ds \<le> 15) \<longrightarrow>
            sendSms P ev (JStr t) msg =
              (case create P \<lparr>sms_from = sender, sms_to = normalizeTo ev t, sms_body = msg\<rparr> of
                 None \<Rightarrow> Sent \<lparr>sms_from = sender, sms_to = normalizeTo ev t, sms_body = msg\<rparr>
               | Some e \<Rightarrow> Rejected e)"
    unfolding validPhone_iff [symmetric] s by (intro impI) (simp only: if_True)
  have d: "\<not> (\<exists>ds. normalizeTo ev t = CHR ''+'' # ds \<and> set ds \<subseteq> set ''0123456789''
                \<and> 10 \<le> length ds \<and> length ds \<le> 15) \<longrightarrow>
            sendSms P ev (JStr t) msg =
              Skipped (''Invalid phone number '' @ [CHR 0x22] @ normalizeTo ev t @ [CHR 0x22]
                       @ ''. Skipping SMS.'')"
    unfolding validPhone_iff [symmetric] s by (intro impI) (simp only: if_False)
  have e: "ev ''DEFAULT_COUNTRY_CODE'' = None \<longrightarrow>
            normalizeTo ev ''9876543210'' = ''+919876543210''
            \<and> normalizeTo ev ''+14155552671'' = ''+14155552671''
            \<and> sendSms P ev (JStr ''123'') msg =
                Skipped (''Invalid phone number '' @ [CHR 0x22] @ ''+91123'' @ [CHR 0x22]
                         @ ''. Skipping SMS.'')"
    unfolding s by (intro impI conjI) (simp_all only: normalize_examples if_False)
  from a b c d e show ?thesis by (intro conjI)
qed

text \<open>The three numbers of the claim, with a provider that accepts every message.\<close>

lemma sendSms_normalizes_example:
  "sendSms no_provider ex_sms_env (JStr ''98765 43210'') ''Hi''
     = Sent \<lparr>sms_from = ''+15005550006'', sms_to = ''+919876543210'', sms_body = ''Hi''\<rparr>
   \<and> sendSms no_provider ex_sms_env (JStr ''+14155552671'') ''Hi''
     = Sent \<lparr>sms_from = ''+15005550006'', sms_to = ''+14155552671'', sms_body = ''Hi''\<rparr>
   \<and> sendSms no_provider ex_sms_env (JStr ''123'') ''Hi''
     = Skipped (''Invalid phone number '' @ [CHR 0x22] @ ''+91123'' @ [CHR 0x22]
                @ ''. Skipping SMS.'')"
proof -
  have g: "''+15005550006'' \<noteq> []" by simp
  note i = sendSms_normalizes [OF ex_sms_client(1,2) g]
  have a: "normalizeTo ex_sms_env ''98765 43210'' = ''+919876543210''"
    using i [of "''98765 43210''"] by (simp add: ex_sms_client(3))
  have b: "normalizeTo ex_sms_env ''+14155552671'' = ''+14155552671''"
    using i [of "''+14155552671''"] by simp
  have c: "create no_provider m = None" for m
    by (simp add: no_provider_def)
  show ?thesis
    using i [of "''98765 43210''" "''Hi''"] i [of "''+14155552671''" "''Hi''"]
    by (simp add: a b c ex_sms_client(3))
qed

text \<open>
  Claim C5. For every input \<open>to\<close> given to \<^verbatim>\<open>sendSms\<close> when provider credentials and sender
  number are configured, \<open>to\<close> is normalised (non-digits dropped and the country code put
  in front unless it starts with \<open>+\<close>), checked against \<open>+\<close> followed by 10 to 15 digits,
  and an invalid number is skipped with a warning and without error. \<^verbatim>\<open>sendSms\<close> breaks
  this when \<open>to\<close> is not a string. The handlers pass the submitted phone as it is, and a
  phone sent as the JSON number \<open>9876543210\<close> is truthy and goes through; on it
  \<^verbatim>\<open>to.startsWith\<close> is not a function, so the call rejects with a TypeError instead of
  sending to \<open>+919876543210\<close> or skipping without error.
\<close>

theorem sendSms_number_rejects:
  assumes "getTwilioClient P ev = Inr (Some client)"
    and "ev ''TWILIO_PHONE'' = Some sender" and "sender \<noteq> []"
  shows "sendSms P ev (JNum 9876543210) msg = Rejected TypeError
       \<and> notifyCustomerAndAdmin P ev (Some (JNum 9876543210)) None msg = [Rejected TypeError]"
  using assms by (simp add: sendSms_def notifyCustomerAndAdmin_def)

text \<open>
  With a provider that accepts every message: the number rejects, the same digits as a
  string are sent.
\<close>

theorem sendSms_number_rejects_witness:
  "sendSms no_provider ex_sms_env (JNum 9876543210) ''Hi'' = Rejected TypeError
   \<and> sendSms no_provider ex_sms_env (JStr ''9876543210'') ''Hi''
     = Sent \<lparr>sms_from = ''+15005550006'', sms_to = ''+919876543210'', sms_body = ''Hi''\<rparr>"
proof -
  have g: "''+15005550006'' \<noteq> []" by simp
  have a: "normalizeTo ex_sms_env ''9876543210'' = ''+919876543210''"
    by (simp add: normalize_examples ex_sms_client(3))
  have v: "validPhone ''+919876543210''"
    by (simp add: validPhone_def isDigit_def)
  have c: "create no_provider m = None" for m
    by (simp add: no_provider_def)
  show ?thesis
    using sendSms_number_rejects [OF ex_sms_client(1,2) g, of "''Hi''"]
    by (simp add: sendSms_configured [OF ex_sms_client(1,2) g] a v c)
qed

section \<open>Feedback ratings\<close>

text \<open>
  For every feedback submission with name and message present, where the rating coerces to
  the number \<open>x\<close> and the feedback store loads as a sequence: if \<open>x\<close> is finite and greater
  than 0 the submission is accepted with status 200 and the stored rating is \<open>x\<close>;
  otherwise it is rejected with status 400. Rating 4.5 is accepted and stored as the number
  4.5; ratings 0, -1 and \<open>abc\<close> are rejected.
\<close>

lemma feedback_rating_checked:
  assumes "submitted ''name'' reqBody = Some n" and "truthy (Some n)"
    and "submitted ''message'' reqBody = Some m" and "truthy (Some m)"
    and "Number (rt_fmt rt) (rt_rnd rt) (submitted ''rating'' reqBody) = Inr x"
    and "store_seq d feedback = Some xs"
  shows "(\<forall>r. x = Fin r \<and> 0 < r \<longrightarrow>
            post_feedback rt d reqBody =
              \<lparr>files = d(STORE_FILES feedback := Parsed (JArr (xs @
                  [JObj [(''id'', JStr (rt_uuid rt)), (''name'', n), (''message'', m),
                         (''rating'', JNum r), (''createdAt'', JStr (rt_now rt))]]))),
               notified = [],
               outcome = Responded \<lparr>status = 200, body = JObj [(''ok'', JBool True),
                 (''record'', JObj [(''id'', JStr (rt_uuid rt)), (''name'', n), (''message'', m),
                         (''rating'', JNum r), (''createdAt'', JStr (rt_now rt))])]\<rparr>\<rparr>)
       \<and> (\<not> (\<exists>r. x = Fin r \<and> 0 < r) \<longrightarrow>
            status_of (outcome (post_feedback rt d reqBody)) = Some 400
            \<and> files (post_feedback rt d reqBody) = d)
       \<and> (submitted ''rating'' reqBody = Some (JNum (9 / 2)) \<longrightarrow>
            status_of (outcome (post_feedback rt d reqBody)) = Some 200
            \<and> store_seq (files (post_feedback rt d reqBody)) feedback = Some (xs @
                  [JObj [(''id'', JStr (rt_uuid rt)), (''name'', n), (''message'', m),
                         (''rating'', JNum (9 / 2)), (''createdAt'', JStr (rt_now rt))]]))
       \<and> (submitted ''rating'' reqBody = Some (JNum 0) \<or> submitted ''rating'' reqBody = Some (JNum (- 1))
            \<or> submitted ''rating'' reqBody = Some (JStr ''abc'') \<longrightarrow>
            status_of (outcome (post_feedback rt d reqBody)) = Some 400)"
proof (intro conjI allI impI)
  fix r
  assume "x = Fin r \<and> 0 < r"
  then show "post_feedback rt d reqBody =
              \<lparr>files = d(STORE_FILES feedback := Parsed (JArr (xs @
                  [JObj [(''id'', JStr (rt_uuid rt)), (''name'', n), (''message'', m),
                         (''rating'', JNum r), (''createdAt'', JStr (rt_now rt))]]))),
               notified = [],
               outcome = Responded \<lparr>status = 200, body = JObj [(''ok'', JBool True),
                 (''record'', JObj [(''id'', JStr (rt_uuid rt)), (''name'', n), (''message'', m),
                         (''rating'', JNum r), (''createdAt'', JStr (rt_now rt))])]\<rparr>\<rparr>"
    using post_feedback_accepted [OF assms(1-4) _ _ assms(6), of rt r] assms(5) by simp
next
  assume a: "\<not> (\<exists>r. x = Fin r \<and> 0 < r)"
  then have b: "\<not> truthy (submitted ''name'' reqBody) \<or> \<not> truthy (submitted ''message'' reqBody)
         \<or> \<not> (\<exists>r. x = Fin r \<and> 0 < r)"
    by blast
  show "status_of (outcome (post_feedback rt d reqBody)) = Some 400"
    by (simp add: post_feedback_rejected [OF assms(5) b])
  show "files (post_feedback rt d reqBody) = d"
    by (simp add: post_feedback_rejected [OF assms(5) b])
next
  assume a: "submitted ''rating'' reqBody = Some (JNum (9 / 2))"
  then have e: "Number (rt_fmt rt) (rt_rnd rt) (submitted ''rating'' reqBody) = Inr (Fin (9 / 2))"
    by simp
  note p = post_feedback_accepted [OF assms(1-4) e _ assms(6)]
  show "status_of (outcome (post_feedback rt d reqBody)) = Some 200"
    by (simp add: p)
  show "store_seq (files (post_feedback rt d reqBody)) feedback = Some (xs @
                  [JObj [(''id'', JStr (rt_uuid rt)), (''name'', n), (''message'', m),
                         (''rating'', JNum (9 / 2)), (''createdAt'', JStr (rt_now rt))]])"
    by (simp add: p store_seq_upd)
next
  assume "submitted ''rating'' reqBody = Some (JNum 0) \<or> submitted ''rating'' reqBody = Some (JNum (- 1))
            \<or> submitted ''rating'' reqBody = Some (JStr ''abc'')"
  with assms(5) have "\<not> (\<exists>r. x = Fin r \<and> 0 < r)"
    by (auto simp: StringToNumber_abc)
  then have b: "\<not> truthy (submitted ''name'' reqBody) \<or> \<not> truthy (submitted ''message'' reqBody)
         \<or> \<not> (\<exists>r. x = Fin r \<and> 0 < r)"
    by blast
  show "status_of (outcome (post_feedback rt d reqBody)) = Some 400"
    by (simp add: post_feedback_rejected [OF assms(5) b])
qed

text \<open>Ratings 4.5, \<open>abc\<close> and -1 on a disk with no store yet.\<close>

lemma feedback_rating_checked_example:
  "status_of (outcome (post_feedback ex_runtime no_files (ex_feedback (JNum (9 / 2))))) = Some 200
   \<and> store_seq (files (post_feedback ex_runtime no_files (ex_feedback (JNum (9 / 2))))) feedback
       = Some [JObj [(''id'', JStr ''7d9f0c1e''), (''name'', JStr ''Asha''),
                     (''message'', JStr ''Quick service''), (''rating'', JNum (9 / 2)),
                     (''createdAt'', JStr ''2024-05-01T10:00:00.000Z'')]]
   \<and> status_of (outcome (post_feedback ex_runtime no_files (ex_feedback (JStr ''abc'')))) = Some 400
   \<and> files (post_feedback ex_runtime no_files (ex_feedback (JStr ''abc''))) = no_files
   \<and> status_of (outcome (post_feedback ex_runtime no_files (ex_feedback (JNum (- 1))))) = Some 400"
proof -
  have a: "Number (rt_fmt ex_runtime) (rt_rnd ex_runtime)
             (submitted ''rating'' (ex_feedback (JNum (9 / 2)))) = Inr (Fin (9 / 2))"
    and b: "Number (rt_fmt ex_runtime) (rt_rnd ex_runtime)
             (submitted ''rating'' (ex_feedback (JStr ''abc''))) = Inr NaN"
    and c: "Number (rt_fmt ex_runtime) (rt_rnd ex_runtime)
             (submitted ''rating'' (ex_feedback (JNum (- 1)))) = Inr (Fin (- 1))"
    by (simp_all add: ex_feedback_fields(3) StringToNumber_abc)
  show ?thesis
    using feedback_rating_checked [OF ex_feedback_fields(1) truthy_examples(1)
          ex_feedback_fields(2) truthy_examples(2) a store_seq_no_files [of feedback]]
      feedback_rating_checked [OF ex_feedback_fields(1) truthy_examples(1)
          ex_feedback_fields(2) truthy_examples(2) b store_seq_no_files [of feedback]]
      feedback_rating_checked [OF ex_feedback_fields(1) truthy_examples(1)
          ex_feedback_fields(2) truthy_examples(2) c store_seq_no_files [of feedback]]
    by (simp add: ex_feedback_fields(3) ex_runtime_def)
qed

text \<open>
  Claim C6. For every feedback submission with name and message present: if the submitted
  rating coerces to a finite number greater than 0 the submission is accepted with status
  200 and the coerced number is stored; otherwise it is rejected with status 400. The
  handler breaks the second half on the rating \<^verbatim>\<open>{"toString": 1}\<close>: it coerces to no
  number, \<^verbatim>\<open>Number(rating)\<close> throws a TypeError before the check, and the request gets no
  400 (and no response at all); nothing is stored.
\<close>

theorem feedback_unprintable_rating_throws:
  "truthy (submitted ''name'' (ex_feedback (JObj [(''toString'', JNum 1)])))
   \<and> truthy (submitted ''message'' (ex_feedback (JObj [(''toString'', JNum 1)])))
   \<and> Number (rt_fmt rt) (rt_rnd rt)
        (submitted ''rating'' (ex_feedback (JObj [(''toString'', JNum 1)]))) = Inl TypeError
   \<and> post_feedback rt d (ex_feedback (JObj [(''toString'', JNum 1)]))
       = \<lparr>files = d, notified = [], outcome = Threw TypeError\<rparr>
   \<and> status_of (outcome (post_feedback rt d (ex_feedback (JObj [(''toString'', JNum 1)]))))
       \<noteq> Some 400"
  by (simp add: ex_feedback_fields post_feedback_throws viaString_def)

text \<open>The same request with no variable set and no store yet.\<close>

theorem feedback_unprintable_rating_throws_witness:
  "outcome (post_feedback ex_runtime no_files (ex_feedback (JObj [(''toString'', JNum 1)])))
     = Threw TypeError
   \<and> files (post_feedback ex_runtime no_files (ex_feedback (JObj [(''toString'', JNum 1)])))
     = no_files"
  using feedback_unprintable_rating_throws [of ex_runtime no_files]
  by simp

section \<open>Login\<close>

text \<open>
  Claim C7, as amended. For every login request: if username or password is missing (or
  falsy) the answer is status 400; if both are present and either differs from the
  configured administrator credentials (\<open>admin\<close> and \<open>admin123\<close> when unset) the answer is
  status 401; if both match the answer is status 200 with \<^verbatim>\<open>{ok: true}\<close>. So every
  combination of a present username and a present password other than the right one is
  answered 401; status 200 is given to the right credentials only, and status 400 exactly
  when a field is missing.
\<close>

theorem login_status:
  "((\<not> truthy (submitted ''username'' reqBody) \<or> \<not> truthy (submitted ''password'' reqBody)) \<longrightarrow>
      login ev reqBody =
        Responded \<lparr>status = 400, body = JObj [(''ok'', JBool False),
              (''message'', JStr ''Missing username or password.'')]\<rparr>)
   \<and> (truthy (submitted ''username'' reqBody) \<and> truthy (submitted ''password'' reqBody)
       \<and> (submitted ''username'' reqBody \<noteq> Some (JStr (env_or (ev ''ADMIN_USER'') ''admin''))
          \<or> submitted ''password'' reqBody
              \<noteq> Some (JStr (env_or (ev ''ADMIN_PASS'') ''admin123''))) \<longrightarrow>
      login ev reqBody =
        Responded \<lparr>status = 401, body = JObj [(''ok'', JBool False),
              (''message'', JStr ''Invalid credentials.'')]\<rparr>)
   \<and> (submitted ''username'' reqBody = Some (JStr (env_or (ev ''ADMIN_USER'') ''admin''))
       \<and> submitted ''password'' reqBody = Some (JStr (env_or (ev ''ADMIN_PASS'') ''admin123'')) \<longrightarrow>
      login ev reqBody = Responded \<lparr>status = 200, body = JObj [(''ok'', JBool True)]\<rparr>)
   \<and> (ev ''ADMIN_USER'' = None \<and> ev ''ADMIN_PASS'' = None
       \<and> submitted ''username'' reqBody = Some (JStr ''admin'')
       \<and> submitted ''password'' reqBody = Some (JStr ''admin123'') \<longrightarrow>
      login ev reqBody = Responded \<lparr>status = 200, body = JObj [(''ok'', JBool True)]\<rparr>)
   \<and> (status_of (login ev reqBody) = Some 200 \<longleftrightarrow>
        submitted ''username'' reqBody = Some (JStr (env_or (ev ''ADMIN_USER'') ''admin''))
        \<and> submitted ''password'' reqBody = Some (JStr (env_or (ev ''ADMIN_PASS'') ''admin123'')))
   \<and> (status_of (login ev reqBody) = Some 400 \<longleftrightarrow>
        \<not> truthy (submitted ''username'' reqBody) \<or> \<not> truthy (submitted ''password'' reqBody))"
proof -
  let ?u = "submitted ''username'' reqBody" and ?p = "submitted ''password'' reqBody"
  let ?au = "env_or (ev ''ADMIN_USER'') ''admin''"
  let ?ap = "env_or (ev ''ADMIN_PASS'') ''admin123''"
  have ne: "?au \<noteq> []" "?ap \<noteq> []"
    by (simp_all add: env_or_nonempty)
  have match: "truthy ?u \<and> truthy ?p" if "?u = Some (JStr ?au)" "?p = Some (JStr ?ap)"
    using that ne by simp
  show ?thesis
  proof (cases "\<not> truthy ?u \<or> \<not> truthy ?p")
    case True
    then have "login ev reqBody =
        Responded \<lparr>status = 400, body = JObj [(''ok'', JBool False),
              (''message'', JStr ''Missing username or password.'')]\<rparr>"
      by (simp only: login_eq if_True)
    with True match show ?thesis by auto
  next
    case present: False
    show ?thesis
    proof (cases "?u \<noteq> Some (JStr ?au) \<or> ?p \<noteq> Some (JStr ?ap)")
      case True
      with present have "login ev reqBody =
        Responded \<lparr>status = 401, body = JObj [(''ok'', JBool False),
              (''message'', JStr ''Invalid credentials.'')]\<rparr>"
        by (simp only: login_eq if_True if_False)
      with present True show ?thesis by auto
    next
      case False
      with present have "login ev reqBody =
          Responded \<lparr>status = 200, body = JObj [(''ok'', JBool True)]\<rparr>"
        by (simp only: login_eq if_False)
      with present False show ?thesis by auto
    qed
  qed
qed

text \<open>
  The claim as stated fails: a request with the right username and no password is a
  combination other than the correct credentials, and it is answered 400, not 401.
\<close>

theorem login_any_other_401_counterexample:
  "status_of (login (\<lambda>v. None) (Some (JObj [(''username'', JStr ''admin'')]))) = Some 400
   \<and> status_of (login (\<lambda>v. None) (Some (JObj [(''username'', JStr ''admin'')]))) \<noteq> Some 401"
  by (simp add: login_eq submitted_def)

text \<open>No body, a wrong password and the default credentials, with no variable set.\<close>

theorem login_status_witness:
  "login (\<lambda>v. None) None =
        Responded \<lparr>status = 400, body = JObj [(''ok'', JBool False),
              (''message'', JStr ''Missing username or password.'')]\<rparr>
   \<and> login (\<lambda>v. None) (Some (JObj [(''username'', JStr ''admin''), (''password'', JStr ''letmein'')])) =
        Responded \<lparr>status = 401, body = JObj [(''ok'', JBool False),
              (''message'', JStr ''Invalid credentials.'')]\<rparr>
   \<and> login (\<lambda>v. None) (Some (JObj [(''username'', JStr ''admin''), (''password'', JStr ''admin123'')])) =
        Responded \<lparr>status = 200, body = JObj [(''ok'', JBool True)]\<rparr>"
  using login_status [of None "\<lambda>v. None"]
    login_status [of "Some (JObj [(''username'', JStr ''admin''), (''password'', JStr ''letmein'')])" "\<lambda>v. None"]
    login_status [of "Some (JObj [(''username'', JStr ''admin''), (''password'', JStr ''admin123'')])" "\<lambda>v. None"]
  by (simp add: submitted_def)

section \<open>Loading a store\<close>

text \<open>
  Claim C8. For every collection, loading it returns the empty sequence and creates the
  backing file holding an empty sequence when the file is absent; returns the fallback
  (the empty sequence) when the file parses to \<^verbatim>\<open>null\<close>; returns the parsed contents when
  the file is there and well-formed; and gives back every other read or parse failure as an
  error. Loading touches no other file, and loading again returns the same contents and
  writes nothing. In particular \<^verbatim>\<open>GET /api/feedback\<close> before any submission answers 200
  with \<^verbatim>\<open>{ok:true, records:[]}\<close>, creating the empty backing file if there was none.
\<close>

theorem loadStore_cases:
  "(d (STORE_FILES key) = ReadError ''ENOENT'' \<longrightarrow>
      loadStore d key = (d(STORE_FILES key := Parsed (JArr [])), Inr (JArr [])))
   \<and> (d (STORE_FILES key) = Parsed JNull \<longrightarrow> loadStore d key = (d, Inr (JArr [])))
   \<and> (d (STORE_FILES key) = Parsed v \<and> v \<noteq> JNull \<longrightarrow> loadStore d key = (d, Inr v))
   \<and> (d (STORE_FILES key) = BadJson \<longrightarrow> loadStore d key = (d, Inl SyntaxError))
   \<and> (d (STORE_FILES key) = ReadError c \<and> c \<noteq> ''ENOENT'' \<longrightarrow>
        loadStore d key = (d, Inl (IoError c)))
   \<and> (\<forall>p. p \<noteq> STORE_FILES key \<longrightarrow> fst (loadStore d key) p = d p)
   \<and> (\<forall>records. snd (loadStore d key) = Inr records \<longrightarrow>
        loadStore (fst (loadStore d key)) key = (fst (loadStore d key), Inr records))
   \<and> (d (STORE_FILES feedback) = ReadError ''ENOENT'' \<longrightarrow>
        get_feedback d =
          \<lparr>files = d(STORE_FILES feedback := Parsed (JArr [])), notified = [],
           outcome = Responded \<lparr>status = 200,
             body = JObj [(''ok'', JBool True), (''records'', JArr [])]\<rparr>\<rparr>)
   \<and> (d (STORE_FILES feedback) = Parsed (JArr []) \<longrightarrow>
        get_feedback d =
          \<lparr>files = d, notified = [],
           outcome = Responded \<lparr>status = 200,
             body = JObj [(''ok'', JBool True), (''records'', JArr [])]\<rparr>\<rparr>)"
proof -
  have absent: "loadStore d k = (d(STORE_FILES k := Parsed (JArr [])), Inr (JArr []))"
    if "d (STORE_FILES k) = ReadError ''ENOENT''" for k
    using that by (simp add: loadStore_def readJson_def writeJson_def)
  have null: "loadStore d key = (d, Inr (JArr []))" if "d (STORE_FILES key) = Parsed JNull"
    using that by (simp add: loadStore_def readJson_def)
  have there: "loadStore d k = (d, Inr w)" if "d (STORE_FILES k) = Parsed w" "w \<noteq> JNull" for k w
    using that by (simp add: loadStore_def readJson_def)
  have bad: "loadStore d key = (d, Inl SyntaxError)" if "d (STORE_FILES key) = BadJson"
    using that by (simp add: loadStore_def readJson_def)
  have io: "loadStore d key = (d, Inl (IoError c))"
    if "d (STORE_FILES key) = ReadError c" "c \<noteq> ''ENOENT''"
    using that by (simp add: loadStore_def readJson_def)
  have others: "\<forall>p. p \<noteq> STORE_FILES key \<longrightarrow> fst (loadStore d key) p = d p"
    by (cases "d (STORE_FILES key)")
       (simp_all add: loadStore_def readJson_def writeJson_def)
  have again: "\<forall>records. snd (loadStore d key) = Inr records \<longrightarrow>
        loadStore (fst (loadStore d key)) key = (fst (loadStore d key), Inr records)"
    by (cases "d (STORE_FILES key)")
       (auto simp: loadStore_def readJson_def writeJson_def)
  have get1: "get_feedback d =
          \<lparr>files = d(STORE_FILES feedback := Parsed (JArr [])), notified = [],
           outcome = Responded \<lparr>status = 200,
             body = JObj [(''ok'', JBool True), (''records'', JArr [])]\<rparr>\<rparr>"
    if "d (STORE_FILES feedback) = ReadError ''ENOENT''"
    using absent [OF that] by (simp add: get_feedback_def res_json_def del: STORE_FILES.simps)
  have get2: "get_feedback d =
          \<lparr>files = d, notified = [],
           outcome = Responded \<lparr>status = 200,
             body = JObj [(''ok'', JBool True), (''records'', JArr [])]\<rparr>\<rparr>"
    if "d (STORE_FILES feedback) = Parsed (JArr [])"
    using there [OF that] by (simp add: get_feedback_def res_json_def del: STORE_FILES.simps)
  from absent [of key] null there [of key v] bad io others again get1 get2
  show ?thesis by blast
qed

theorem loadStore_cases_witness:
  "loadStore (\<lambda>p. ReadError ''ENOENT'') contacts
     = ((\<lambda>p. ReadError ''ENOENT'')(''contacts.json'' := Parsed (JArr [])), Inr (JArr []))
   \<and> loadStore (\<lambda>p. Parsed JNull) contacts = (\<lambda>p. Parsed JNull, Inr (JArr []))
   \<and> loadStore (\<lambda>p. Parsed (JArr [JStr ''r''])) contacts
       = (\<lambda>p. Parsed (JArr [JStr ''r'']), Inr (JArr [JStr ''r'']))
   \<and> loadStore (\<lambda>p. BadJson) contacts = (\<lambda>p. BadJson, Inl SyntaxError)
   \<and> loadStore (\<lambda>p. ReadError ''EACCES'') contacts
       = (\<lambda>p. ReadError ''EACCES'', Inl (IoError ''EACCES''))
   \<and> body_of (outcome (get_feedback (\<lambda>p. ReadError ''ENOENT'')))
       = Some (JObj [(''ok'', JBool True), (''records'', JArr [])])
   \<and> files (get_feedback (\<lambda>p. ReadError ''ENOENT'')) ''feedback.json'' = Parsed (JArr [])
   \<and> get_feedback (\<lambda>p. Parsed (JArr []))
       = \<lparr>files = \<lambda>p. Parsed (JArr []), notified = [],
          outcome = Responded \<lparr>status = 200,
            body = JObj [(''ok'', JBool True), (''records'', JArr [])]\<rparr>\<rparr>"
  using loadStore_cases [of "\<lambda>p. ReadError ''ENOENT''" contacts]
        loadStore_cases [of "\<lambda>p. Parsed JNull" contacts]
        loadStore_cases [of "\<lambda>p. Parsed (JArr [JStr ''r''])" contacts "JArr [JStr ''r'']"]
        loadStore_cases [of "\<lambda>p. BadJson" contacts]
        loadStore_cases [of "\<lambda>p. ReadError ''EACCES''" contacts _ "''EACCES''"]
        loadStore_cases [of "\<lambda>p. Parsed (JArr [])" contacts]
  by simp

section \<open>The details of a spare-parts request\<close>

text \<open>
  Claim C9, as amended. For every valid spare-parts submission whose texts are built
  without a throw, the details of the created record are the summaries of the parts,
  \<open>name | Qty: qty | Amount: amount\<close>, joined by \<open> | \<close> and followed by \<open> | Total: total\<close>,
  where the name, quantity and amount of a part give way to \<open>Part\<close>, \<open>1\<close> and \<open>0\<close> when they
  are absent or falsy (\<^verbatim>\<open>null\<close>, \<^verbatim>\<open>false\<close>, \<open>0\<close>, the empty string), and the total to \<open>0\<close>
  likewise. Where no such field is falsy this is the text of the specification. For the
  part Brake Pad, quantity 2, amount 500 and total 1000 the details are
  \<open>Brake Pad | Qty: 2 | Amount: 500 | Total: 1000\<close>, and the record, of type
  \<open>Spare Parts\<close>, is appended to the customer records.
\<close>

theorem spares_details:
  assumes "submitted ''name'' reqBody = Some n" and "truthy (Some n)"
    and "submitted ''phone'' reqBody = Some p" and "truthy (Some p)"
    and "submitted ''address'' reqBody = Some a" and "truthy (Some a)"
    and "submitted ''parts'' reqBody = Some (JArr ps)" and "ps \<noteq> []"
    and "partsSummary (rt_fmt rt) ps = Inr summary"
    and "toString (rt_fmt rt) (or_default (submitted ''total'' reqBody) (JStr ''0''))
           = Inr totalText"
    and "store_seq d spares = Some sps"
    and "store_seq d customerRecords = Some custs"
  shows "outcome (post_spares rt d reqBody) =
        Responded \<lparr>status = 200, body = JObj [(''ok'', JBool True),
          (''record'', JObj [(''id'', JStr (rt_uuid rt)), (''type'', JStr ''Spare Parts''),
             (''name'', n), (''phone'', p), (''address'', a),
             (''details'', JStr (summary @ '' | Total: '' @ totalText)),
             (''createdAt'', JStr (rt_now rt))])]\<rparr>
    \<and> store_seq (files (post_spares rt d reqBody)) customerRecords = Some (custs @
          [JObj [(''id'', JStr (rt_uuid rt)), (''type'', JStr ''Spare Parts''),
             (''name'', n), (''phone'', p), (''address'', a),
             (''details'', JStr (summary @ '' | Total: '' @ totalText)),
             (''createdAt'', JStr (rt_now rt))]])
    \<and> summary = join '' | '' (map (\<lambda>part.
             text_of (rt_fmt rt) (or_default (js_get ''name'' part) (JStr ''Part''))
             @ '' | Qty: ''
             @ text_of (rt_fmt rt) (or_default (js_get ''qty'' part) (JStr ''1''))
             @ '' | Amount: ''
             @ text_of (rt_fmt rt) (or_default (js_get ''amount'' part) (JStr ''0''))) ps)
    \<and> totalText = text_of (rt_fmt rt) (or_default (submitted ''total'' reqBody) (JStr ''0''))
    \<and> ((\<forall>part\<in>set ps. \<forall>k\<in>set [''name'', ''qty'', ''amount''].
            js_get k part = None \<or> truthy (js_get k part))
        \<and> (submitted ''total'' reqBody = None \<or> truthy (submitted ''total'' reqBody)) \<longrightarrow>
        summary @ '' | Total: '' @ totalText
          = spec_details (rt_fmt rt) ps (submitted ''total'' reqBody))
    \<and> (ps = [JObj [(''name'', JStr ''Brake Pad''), (''qty'', JNum 2), (''amount'', JNum 500)]]
        \<and> submitted ''total'' reqBody = Some (JNum 1000) \<longrightarrow>
        summary @ '' | Total: '' @ totalText
          = ''Brake Pad | Qty: 2 | Amount: 500 | Total: 1000'')"
proof -
  let ?txt = "\<lambda>part.
             text_of (rt_fmt rt) (or_default (js_get ''name'' part) (JStr ''Part''))
             @ '' | Qty: ''
             @ text_of (rt_fmt rt) (or_default (js_get ''qty'' part) (JStr ''1''))
             @ '' | Amount: ''
             @ text_of (rt_fmt rt) (or_default (js_get ''amount'' part) (JStr ''0''))"
  note o = spares_response(1) [OF assms]
  have f: "store_seq (files (post_spares rt d reqBody)) customerRecords = Some (custs @
          [JObj [(''id'', JStr (rt_uuid rt)), (''type'', JStr ''Spare Parts''),
             (''name'', n), (''phone'', p), (''address'', a),
             (''details'', JStr (summary @ '' | Total: '' @ totalText)),
             (''createdAt'', JStr (rt_now rt))]])"
    unfolding spares_response(2) [OF assms] by (simp add: store_seq_upd)
  note sm = partsSummary_Inr(1) [OF assms(9)]
  have tt: "totalText = text_of (rt_fmt rt) (or_default (submitted ''total'' reqBody) (JStr ''0''))"
    using assms(10) by (simp add: text_of_def)
  have sp: "(\<forall>part\<in>set ps. \<forall>k\<in>set [''name'', ''qty'', ''amount''].
            js_get k part = None \<or> truthy (js_get k part))
        \<and> (submitted ''total'' reqBody = None \<or> truthy (submitted ''total'' reqBody)) \<longrightarrow>
        summary @ '' | Total: '' @ totalText
          = spec_details (rt_fmt rt) ps (submitted ''total'' reqBody)"
  proof
    assume h: "(\<forall>part\<in>set ps. \<forall>k\<in>set [''name'', ''qty'', ''amount''].
            js_get k part = None \<or> truthy (js_get k part))
        \<and> (submitted ''total'' reqBody = None \<or> truthy (submitted ''total'' reqBody))"
    then have "\<forall>part\<in>set ps. ?txt part = spec_partSummary (rt_fmt rt) part"
      by (simp add: spec_partSummary_def or_default_absent_or_truthy)
    then have m: "map ?txt ps = map (spec_partSummary (rt_fmt rt)) ps"
      by simp
    from h have tot: "or_default (submitted ''total'' reqBody) (JStr ''0'')
        = spec_default (submitted ''total'' reqBody) (JStr ''0'')"
      by (simp add: or_default_absent_or_truthy)
    show "summary @ '' | Total: '' @ totalText
          = spec_details (rt_fmt rt) ps (submitted ''total'' reqBody)"
      unfolding sm tt by (simp only: spec_details_def m tot)
  qed
  have bp: "ps = [JObj [(''name'', JStr ''Brake Pad''), (''qty'', JNum 2), (''amount'', JNum 500)]]
        \<and> submitted ''total'' reqBody = Some (JNum 1000) \<longrightarrow>
        summary @ '' | Total: '' @ totalText
          = ''Brake Pad | Qty: 2 | Amount: 500 | Total: 1000''"
    unfolding sm tt by (simp add: text_of_def numberToString_examples)
  from o f sm tt sp bp show ?thesis by (intro conjI)
qed

text \<open>
  The claim as stated fails on a part whose quantity is 0: the quantity is there, and the
  details say \<open>Qty: 1\<close>.
\<close>

theorem spares_zero_qty_counterexample:
  "record_field ''details'' (outcome (post_spares ex_runtime no_files ex_spares_zero_qty))
     = Some (JStr ''Oil | Qty: 1 | Amount: 5 | Total: 5'')
   \<and> spec_details (rt_fmt ex_runtime)
         [JObj [(''name'', JStr ''Oil''), (''qty'', JNum 0), (''amount'', JNum 5)]]
         (submitted ''total'' ex_spares_zero_qty)
     = ''Oil | Qty: 0 | Amount: 5 | Total: 5''
   \<and> record_field ''details'' (outcome (post_spares ex_runtime no_files ex_spares_zero_qty))
     \<noteq> Some (JStr (spec_details (rt_fmt ex_runtime)
         [JObj [(''name'', JStr ''Oil''), (''qty'', JNum 0), (''amount'', JNum 5)]]
         (submitted ''total'' ex_spares_zero_qty)))"
proof -
  have 1: "record_field ''details'' (outcome (post_spares ex_runtime no_files ex_spares_zero_qty))
     = Some (JStr ''Oil | Qty: 1 | Amount: 5 | Total: 5'')"
    unfolding ex_spares_zero_qty_outcome by simp
  have 2: "spec_details (rt_fmt ex_runtime)
         [JObj [(''name'', JStr ''Oil''), (''qty'', JNum 0), (''amount'', JNum 5)]]
         (submitted ''total'' ex_spares_zero_qty)
     = ''Oil | Qty: 0 | Amount: 5 | Total: 5''"
    by (simp add: spec_details_def spec_partSummary_def text_of_def numberToString_examples
          ex_spares_zero_qty_fields(5))
  show ?thesis
    unfolding 1 2 by simp
qed

text \<open>The brake-pad request on a disk with no store yet.\<close>

theorem spares_details_witness:
  "record_field ''details'' (outcome (post_spares ex_runtime no_files ex_spares))
     = Some (JStr ''Brake Pad | Qty: 2 | Amount: 500 | Total: 1000'')
   \<and> store_seq (files (post_spares ex_runtime no_files ex_spares)) customerRecords
     = Some [JObj [(''id'', JStr ''7d9f0c1e''), (''type'', JStr ''Spare Parts''),
             (''name'', JStr ''Ravi''), (''phone'', JStr ''9876543210''),
             (''address'', JStr ''4 Lake Road''),
             (''details'', JStr ''Brake Pad | Qty: 2 | Amount: 500 | Total: 1000''),
             (''createdAt'', JStr ''2024-05-01T10:00:00.000Z'')]]"
proof -
  have e: "[JObj [(''name'', JStr ''Brake Pad''), (''qty'', JNum 2), (''amount'', JNum 500)]] \<noteq> []"
    by simp
  have tt: "toString (rt_fmt ex_runtime)
              (or_default (submitted ''total'' ex_spares) (JStr ''0'')) = Inr ''1000''"
    by (simp add: ex_spares_fields(5) numberToString_examples)
  show ?thesis
    using spares_details [OF ex_spares_fields(1) truthy_examples(7)
      ex_spares_fields(2) truthy_examples(3) ex_spares_fields(3)
      truthy_examples(8) ex_spares_fields(4) e brake_pad_summary tt
      store_seq_no_files [of spares] store_seq_no_files [of customerRecords]]
    by (simp add: ex_runtime_def)
qed

section \<open>The stored rating is the coerced number\<close>

text \<open>
  Claim C10. The rating check is made on the number \<open>x\<close> that \<^verbatim>\<open>Number\<close> gives for the
  submitted value, whatever JSON value that is: with name and message present, the
  submission is accepted exactly when \<open>x\<close> is finite and greater than 0, and the rating of
  the stored and returned record is then \<open>x\<close>, not the value as submitted. Rating
  \<^verbatim>\<open>true\<close> is accepted and stored as the number 1, and the string \<open>5\<close> as the number 5.
\<close>

theorem feedback_stores_coerced_rating:
  assumes "submitted ''name'' reqBody = Some n" and "truthy (Some n)"
    and "submitted ''message'' reqBody = Some m" and "truthy (Some m)"
    and "Number (rt_fmt rt) (rt_rnd rt) (submitted ''rating'' reqBody) = Inr x"
    and "store_seq d feedback = Some xs"
  shows "(status_of (outcome (post_feedback rt d reqBody)) = Some 200 \<longleftrightarrow>
            (\<exists>r. x = Fin r \<and> 0 < r))
       \<and> (status_of (outcome (post_feedback rt d reqBody)) = Some 200 \<longrightarrow>
            (\<exists>record. store_seq (files (post_feedback rt d reqBody)) feedback = Some (xs @ [record])
               \<and> body_of (outcome (post_feedback rt d reqBody))
                   = Some (JObj [(''ok'', JBool True), (''record'', record)])
               \<and> js_get ''rating'' record = Some (numJson x)))
       \<and> (submitted ''rating'' reqBody = Some (JBool True) \<longrightarrow>
            post_feedback rt d reqBody =
              \<lparr>files = d(STORE_FILES feedback := Parsed (JArr (xs @
                  [JObj [(''id'', JStr (rt_uuid rt)), (''name'', n), (''message'', m),
                         (''rating'', JNum 1), (''createdAt'', JStr (rt_now rt))]]))),
               notified = [],
               outcome = Responded \<lparr>status = 200, body = JObj [(''ok'', JBool True),
                 (''record'', JObj [(''id'', JStr (rt_uuid rt)), (''name'', n), (''message'', m),
                         (''rating'', JNum 1), (''createdAt'', JStr (rt_now rt))])]\<rparr>\<rparr>)
       \<and> (submitted ''rating'' reqBody = Some (JStr ''5'') \<and> rt_rnd rt 5 = Fin 5 \<longrightarrow>
            store_seq (files (post_feedback rt d reqBody)) feedback = Some (xs @
                  [JObj [(''id'', JStr (rt_uuid rt)), (''name'', n), (''message'', m),
                         (''rating'', JNum 5), (''createdAt'', JStr (rt_now rt))]]))"
proof -
  note acc = post_feedback_accepted [OF assms(1-4) _ _ assms(6), of rt]
  have iff: "status_of (outcome (post_feedback rt d reqBody)) = Some 200 \<longleftrightarrow>
            (\<exists>r. x = Fin r \<and> 0 < r)"
  proof (cases "\<exists>r. x = Fin r \<and> 0 < r")
    case True
    then obtain r where r: "x = Fin r" "0 < r" by blast
    from acc [of r] r assms(5) True show ?thesis by simp
  next
    case False
    then have b: "\<not> truthy (submitted ''name'' reqBody)
         \<or> \<not> truthy (submitted ''message'' reqBody) \<or> \<not> (\<exists>r. x = Fin r \<and> 0 < r)"
      by blast
    from post_feedback_rejected [OF assms(5) b] False show ?thesis by simp
  qed
  have st: "status_of (outcome (post_feedback rt d reqBody)) = Some 200 \<longrightarrow>
            (\<exists>record. store_seq (files (post_feedback rt d reqBody)) feedback = Some (xs @ [record])
               \<and> body_of (outcome (post_feedback rt d reqBody))
                   = Some (JObj [(''ok'', JBool True), (''record'', record)])
               \<and> js_get ''rating'' record = Some (numJson x))"
  proof
    assume "status_of (outcome (post_feedback rt d reqBody)) = Some 200"
    with iff obtain r where r: "x = Fin r" "0 < r" by blast
    with assms(5) have "Number (rt_fmt rt) (rt_rnd rt) (submitted ''rating'' reqBody) = Inr (Fin r)"
      by simp
    from acc [OF this r(2)]
    show "\<exists>record. store_seq (files (post_feedback rt d reqBody)) feedback = Some (xs @ [record])
               \<and> body_of (outcome (post_feedback rt d reqBody))
                   = Some (JObj [(''ok'', JBool True), (''record'', record)])
               \<and> js_get ''rating'' record = Some (numJson x)"
      by (simp add: store_seq_upd r(1))
  qed
  have tr: "submitted ''rating'' reqBody = Some (JBool True) \<longrightarrow>
            post_feedback rt d reqBody =
              \<lparr>files = d(STORE_FILES feedback := Parsed (JArr (xs @
                  [JObj [(''id'', JStr (rt_uuid rt)), (''name'', n), (''message'', m),
                         (''rating'', JNum 1), (''createdAt'', JStr (rt_now rt))]]))),
               notified = [],
               outcome = Responded \<lparr>status = 200, body = JObj [(''ok'', JBool True),
                 (''record'', JObj [(''id'', JStr (rt_uuid rt)), (''name'', n), (''message'', m),
                         (''rating'', JNum 1), (''createdAt'', JStr (rt_now rt))])]\<rparr>\<rparr>"
  proof
    assume "submitted ''rating'' reqBody = Some (JBool True)"
    then have "Number (rt_fmt rt) (rt_rnd rt) (submitted ''rating'' reqBody) = Inr (Fin 1)"
      by simp
    then show "post_feedback rt d reqBody =
              \<lparr>files = d(STORE_FILES feedback := Parsed (JArr (xs @
                  [JObj [(''id'', JStr (rt_uuid rt)), (''name'', n), (''message'', m),
                         (''rating'', JNum 1), (''createdAt'', JStr (rt_now rt))]]))),
               notified = [],
               outcome = Responded \<lparr>status = 200, body = JObj [(''ok'', JBool True),
                 (''record'', JObj [(''id'', JStr (rt_uuid rt)), (''name'', n), (''message'', m),
                         (''rating'', JNum 1), (''createdAt'', JStr (rt_now rt))])]\<rparr>\<rparr>"
      by (rule acc) simp
  qed
  have five: "submitted ''rating'' reqBody = Some (JStr ''5'') \<and> rt_rnd rt 5 = Fin 5 \<longrightarrow>
            store_seq (files (post_feedback rt d reqBody)) feedback = Some (xs @
                  [JObj [(''id'', JStr (rt_uuid rt)), (''name'', n), (''message'', m),
                         (''rating'', JNum 5), (''createdAt'', JStr (rt_now rt))]])"
  proof
    assume a: "submitted ''rating'' reqBody = Some (JStr ''5'') \<and> rt_rnd rt 5 = Fin 5"
    then have "Number (rt_fmt rt) (rt_rnd rt) (submitted ''rating'' reqBody) = Inr (Fin 5)"
      by (simp add: StringToNumber_5)
    from acc [OF this] show "store_seq (files (post_feedback rt d reqBody)) feedback = Some (xs @
                  [JObj [(''id'', JStr (rt_uuid rt)), (''name'', n), (''message'', m),
                         (''rating'', JNum 5), (''createdAt'', JStr (rt_now rt))]])"
      by (simp add: store_seq_upd)
  qed
  from iff st tr five show ?thesis by (intro conjI)
qed

text \<open>Ratings \<^verbatim>\<open>true\<close> and the string \<open>5\<close> on a disk with no store yet.\<close>

theorem feedback_stores_coerced_rating_witness:
  "post_feedback ex_runtime no_files (ex_feedback (JBool True)) =
     \<lparr>files = no_files(STORE_FILES feedback := Parsed (JArr
         [JObj [(''id'', JStr ''7d9f0c1e''), (''name'', JStr ''Asha''),
                (''message'', JStr ''Quick service''), (''rating'', JNum 1),
                (''createdAt'', JStr ''2024-05-01T10:00:00.000Z'')]])),
      notified = [],
      outcome = Responded \<lparr>status = 200, body = JObj [(''ok'', JBool True),
         (''record'', JObj [(''id'', JStr ''7d9f0c1e''), (''name'', JStr ''Asha''),
                (''message'', JStr ''Quick service''), (''rating'', JNum 1),
                (''createdAt'', JStr ''2024-05-01T10:00:00.000Z'')])]\<rparr>\<rparr>
   \<and> store_seq (files (post_feedback ex_runtime no_files (ex_feedback (JStr ''5'')))) feedback
       = Some [JObj [(''id'', JStr ''7d9f0c1e''), (''name'', JStr ''Asha''),
                     (''message'', JStr ''Quick service''), (''rating'', JNum 5),
                     (''createdAt'', JStr ''2024-05-01T10:00:00.000Z'')]]"
proof -
  have a: "Number (rt_fmt ex_runtime) (rt_rnd ex_runtime)
             (submitted ''rating'' (ex_feedback (JBool True))) = Inr (Fin 1)"
    and b: "Number (rt_fmt ex_runtime) (rt_rnd ex_runtime)
             (submitted ''rating'' (ex_feedback (JStr ''5''))) = Inr (Fin 5)"
    by (simp_all add: ex_feedback_fields(3) StringToNumber_5 ex_runtime_def)
  show ?thesis
    using feedback_stores_coerced_rating [OF ex_feedback_fields(1) truthy_examples(1)
          ex_feedback_fields(2) truthy_examples(2) a store_seq_no_files [of feedback]]
      feedback_stores_coerced_rating [OF ex_feedback_fields(1) truthy_examples(1)
          ex_feedback_fields(2) truthy_examples(2) b store_seq_no_files [of feedback]]
    by (simp add: ex_feedback_fields(3) ex_runtime_def)
qed

end
